theory Spec2Isabelle
  imports Complex_Main "HOL-Library.AList"
begin

section \<open>Exceptions and basic Python values\<close>

text \<open>
  Every raise of the source is a value of \<open>exn\<close>; a fallible function returns
  \<open>exn + 'a\<close> with \<open>Inl\<close> for the exception.
\<close>

datatype exn =
    AssertionError
  | RuntimeError
  | NotImplementedError
  | RecursionError
  | TypeError
  | ValueError
  | IndexError
  | KeyError
  | ZeroDivisionError
  | UnboundLocalError
  | FileNotFoundError
  | IsADirectoryError
  | OSError

text \<open>
  What an \<open>except RuntimeError\<close> clause catches: the class and its subclasses.
\<close>

fun is_RuntimeError :: "exn \<Rightarrow> bool" where
  "is_RuntimeError RuntimeError = True"
| "is_RuntimeError NotImplementedError = True"
| "is_RuntimeError RecursionError = True"
| "is_RuntimeError _ = False"

subsection \<open>Decimal formatting: \<open>str(n)\<close> and the format spec \<open>09d\<close>\<close>

definition digit_char :: "nat \<Rightarrow> char" where
  "digit_char d = ''0123456789'' ! d"

function digits :: "nat \<Rightarrow> string" where
  "digits n = (if n < 10 then [digit_char n] else digits (n div 10) @ [digit_char (n mod 10)])"
  by pat_completeness auto
termination
  by (relation "measure id") auto

declare digits.simps [simp del]

definition str_int :: "int \<Rightarrow> string" where
  "str_int n = (if n < 0 then ''-'' @ digits (nat (- n)) else digits (nat n))"

definition zfill :: "nat \<Rightarrow> string \<Rightarrow> string" where
  "zfill w s = replicate (w - length s) (CHR ''0'') @ s"

text \<open>
  \<open>f"{n:09d}"\<close>: sign-aware zero padding to a total width of nine characters; a
  number with more digits is written in full.
\<close>

definition format_09d :: "int \<Rightarrow> string" where
  "format_09d n =
     (if n < 0 then ''-'' @ zfill 8 (digits (nat (- n))) else zfill 9 (digits (nat n)))"

subsection \<open>Reading a step back from a file name\<close>

text \<open>\<open>s.find(c)\<close> for a single character: the first index of \<open>c\<close>, or \<open>-1\<close>.\<close>

definition py_find :: "string \<Rightarrow> char \<Rightarrow> int" where
  "py_find s c = (if c \<in> set s then int (length (takeWhile (\<lambda>x. x \<noteq> c) s)) else - 1)"

text \<open>
  \<open>s[a:b]\<close>: a negative index counts from the end, and both ends are clamped to the
  string.
\<close>

definition slice_index :: "nat \<Rightarrow> int \<Rightarrow> nat" where
  "slice_index n i = (if i < 0 then nat (max 0 (int n + i)) else min (nat i) n)"

definition py_slice :: "string \<Rightarrow> int \<Rightarrow> int \<Rightarrow> string" where
  "py_slice s a b =
     (let lo = slice_index (length s) a; hi = slice_index (length s) b
      in take (hi - lo) (drop lo s))"

text \<open>
  A \<open>str\<close> is modelled by the list of its code points, and the type \<open>char\<close> holds the
  code points below 256; a name with a code point beyond them is outside the model.

  \<open>int(s)\<close>: white space around the number is ignored, one sign may lead, and the digits
  may be grouped by single underscores between digits. Anything else is a \<open>ValueError\<close>
  (\<open>None\<close> here). The white space ignored is tab, line feed, vertical tab, form feed,
  carriage return and space and, of the code points from 128 on, those that are Unicode
  white space (U+0085 and U+00A0); the separators U+001C to U+001F are not ignored. Below
  256 the only decimal digits are \<open>0\<close> to \<open>9\<close>.
\<close>

definition is_space :: "char \<Rightarrow> bool" where
  "is_space c = (c \<in> set [CHR '' '', CHR 0x09, CHR 0x0A, CHR 0x0B, CHR 0x0C, CHR 0x0D,
                           CHR 0x85, CHR 0xA0])"

definition strip :: "string \<Rightarrow> string" where
  "strip s = rev (dropWhile is_space (rev (dropWhile is_space s)))"

definition digit_val :: "char \<Rightarrow> nat option" where
  "digit_val c =
     (let k = length (takeWhile (\<lambda>x. x \<noteq> c) ''0123456789'')
      in if k < 10 then Some k else None)"

fun digits_value :: "bool \<Rightarrow> string \<Rightarrow> nat \<Rightarrow> nat option" where
  "digits_value after_digit [] acc = (if after_digit then Some acc else None)"
| "digits_value after_digit (c # cs) acc =
     (if c = CHR ''_''
      then (if after_digit \<and> cs \<noteq> [] then digits_value False cs acc else None)
      else (case digit_val c of
              None \<Rightarrow> None
            | Some d \<Rightarrow> digits_value True cs (10 * acc + d)))"

definition py_int :: "string \<Rightarrow> int option" where
  "py_int s =
     (case strip s of
        [] \<Rightarrow> None
      | c # cs \<Rightarrow>
          if c = CHR ''-'' then map_option (\<lambda>n. - int n) (digits_value False cs 0)
          else if c = CHR ''+'' then map_option int (digits_value False cs 0)
          else map_option int (digits_value False (c # cs) 0))"

text \<open>\<open>int(x[x.find("-") + 1 : x.find(".")])\<close>.\<close>

definition step_of_name :: "string \<Rightarrow> int option" where
  "step_of_name x = py_int (py_slice x (py_find x (CHR ''-'') + 1) (py_find x (CHR ''.'')))"

text \<open>The characters \<open>0\<close> to \<open>9\<close>.\<close>

definition is_digit :: "char \<Rightarrow> bool" where
  "is_digit c = (c \<in> set ''0123456789'')"

definition all_digits :: "string \<Rightarrow> bool" where
  "all_digits s = (\<forall>c \<in> set s. is_digit c)"

text \<open>The value of a string of digits, read from the left.\<close>

abbreviation decimal :: "nat \<Rightarrow> string \<Rightarrow> nat" where
  "decimal acc ds \<equiv> foldl (\<lambda>a c. 10 * a + the (digit_val c)) acc ds"

section \<open>TrainerConfig and Trainer\<close>

datatype training_state = Training | Paused | Completed

text \<open>
  The fields of \<open>TrainerConfig\<close> (and of the \<open>ExperimentConfig\<close> it extends) that the
  modelled methods read. A path is a directory name and, for a file, a name inside it.
\<close>

record trainer_config =
  machine_device_type :: string
  cfg_mixed_precision :: bool
  cfg_use_grad_scaler :: bool
  cfg_gradient_accumulation_steps :: int
  cfg_log_gradients :: bool
  cfg_save_only_latest_checkpoint :: bool
  cfg_steps_per_save :: int
  cfg_max_num_iterations :: int
  cfg_load_dir :: "string option"
  cfg_load_step :: "int option"
  cfg_load_checkpoint :: "(string \<times> string) option"
  cfg_load_scheduler :: bool
  cfg_checkpoint_dir :: string

record trainer =
  config :: trainer_config
  local_rank :: int
  world_size :: int
  device :: string
  mixed_precision :: bool
  use_grad_scaler :: bool
  training_state :: training_state
  gradient_accumulation_steps :: int
  start_step :: int
  grad_scaler_enabled :: bool
  checkpoint_dir :: string

text \<open>
  \<open>Trainer.__init__\<close>. \<open>grad_scaler_enabled\<close> is the \<open>enabled\<close> argument of the
  \<open>GradScaler\<close> constructor call.
\<close>

definition trainer_init :: "trainer_config \<Rightarrow> int \<Rightarrow> int \<Rightarrow> trainer" where
  "trainer_init cfg rank wsize =
     (let device0 = machine_device_type cfg;
          device1 = (if device0 = ''cuda'' then device0 @ '':'' @ str_int rank else device0);
          mixed0 = cfg_mixed_precision cfg;
          use_gs = (mixed0 \<or> cfg_use_grad_scaler cfg);
          mixed1 = (if device1 = ''cpu'' then False else mixed0)
      in \<lparr> config = cfg,
           local_rank = rank,
           world_size = wsize,
           device = device1,
           mixed_precision = mixed1,
           use_grad_scaler = use_gs,
           training_state = Training,
           gradient_accumulation_steps = cfg_gradient_accumulation_steps cfg,
           start_step = 0,
           grad_scaler_enabled = use_gs,
           checkpoint_dir = cfg_checkpoint_dir cfg \<rparr>)"

section \<open>One training iteration\<close>

text \<open>
  Tensors holding one scalar are modelled as exact reals (rounding is abstracted away);
  a dictionary of tensors is an association list in insertion order.
\<close>

type_synonym tensor_dict = "(string \<times> real) list"

text \<open>
  \<open>train_iteration\<close> acts on its collaborators (the optimizers, the pipeline and the
  gradient scaler) only through method calls. The model records every call, in order,
  with its arguments; \<open>ScaleBackward x\<close> is \<open>grad_scaler.scale(x).backward()\<close>.
\<close>

datatype call =
    ZeroGradAll
  | GetTrainLossDict int
  | ScaleBackward real
  | OptimizerScalerStepAll
  | GetScale
  | ScalerUpdate
  | SchedulerStepAll int

text \<open>
  What the collaborators return during one iteration: the result of the \<open>k\<close>-th call of
  \<open>pipeline.get_train_loss_dict\<close> (loss dictionary and metrics dictionary, or a raise),
  the model's named parameters with the norm of each gradient (\<open>None\<close> where
  \<open>value.grad is None\<close>), and the two values \<open>grad_scaler.get_scale()\<close> reports before
  and after \<open>grad_scaler.update()\<close>.
\<close>

record iter_env =
  loss_dicts :: "nat \<Rightarrow> exn + (tensor_dict \<times> tensor_dict)"
  named_parameters :: "(string \<times> real option) list"
  scale_before :: real
  scale_after :: real

text \<open>\<open>functools.reduce(torch.add, values)\<close>: a left fold, a \<open>TypeError\<close> on no values.\<close>

definition reduce_add :: "real list \<Rightarrow> exn + real" where
  "reduce_add vs = (case vs of [] \<Rightarrow> Inl TypeError | v # rest \<Rightarrow> Inr (foldl (+) v rest))"

text \<open>
  The body of the accumulation loop. With a single entry \<open>reduce\<close> returns the very
  tensor stored in \<open>loss_dict\<close>, so the in-place \<open>loss /= ...\<close> divides that entry too.
\<close>

definition sub_step ::
  "iter_env \<Rightarrow> int \<Rightarrow> int \<Rightarrow> nat \<Rightarrow> call list \<times> (exn + (real \<times> tensor_dict \<times> tensor_dict))"
where
  "sub_step env step gas k =
     (case loss_dicts env k of
        Inl e \<Rightarrow> ([GetTrainLossDict step], Inl e)
      | Inr (loss_dict, metrics_dict) \<Rightarrow>
          (case reduce_add (map snd loss_dict) of
             Inl e \<Rightarrow> ([GetTrainLossDict step], Inl e)
           | Inr summed \<Rightarrow>
               (let loss = summed / real_of_int gas;
                    loss_dict' = (case loss_dict of
                                    [(name, _)] \<Rightarrow> [(name, loss)]
                                  | _ \<Rightarrow> loss_dict)
                in ([GetTrainLossDict step, ScaleBackward loss],
                    Inr (loss, loss_dict', metrics_dict)))))"

text \<open>
  \<open>for _ in range(gradient_accumulation_steps)\<close>, over the indices still to run; the
  last argument holds the variables the body has bound so far.
\<close>

fun sub_steps ::
  "iter_env \<Rightarrow> int \<Rightarrow> int \<Rightarrow> nat list \<Rightarrow> call list
     \<Rightarrow> (real \<times> tensor_dict \<times> tensor_dict) option
     \<Rightarrow> call list \<times> (exn + (real \<times> tensor_dict \<times> tensor_dict) option)"
where
  "sub_steps env step gas [] tr bound = (tr, Inr bound)"
| "sub_steps env step gas (k # ks) tr bound =
     (case sub_step env step gas k of
        (cs, Inl e) \<Rightarrow> (tr @ cs, Inl e)
      | (cs, Inr r) \<Rightarrow> sub_steps env step gas ks (tr @ cs) (Some r))"

text \<open>The loop of the \<open>log_gradients\<close> branch over \<open>model.named_parameters()\<close>.\<close>

fun log_gradients_loop ::
  "(string \<times> real option) list \<Rightarrow> tensor_dict \<Rightarrow> real \<Rightarrow> exn + (tensor_dict \<times> real)"
where
  "log_gradients_loop [] metrics_dict total_grad = Inr (metrics_dict, total_grad)"
| "log_gradients_loop ((tag, g) # ps) metrics_dict total_grad =
     (if tag = ''Total'' then Inl AssertionError
      else (case g of
              None \<Rightarrow> log_gradients_loop ps metrics_dict total_grad
            | Some grad \<Rightarrow>
                log_gradients_loop ps
                  (AList.update (''Gradients/'' @ tag) grad metrics_dict) (total_grad + grad)))"

definition log_gradients_all :: "(string \<times> real option) list \<Rightarrow> tensor_dict \<Rightarrow> exn + tensor_dict" where
  "log_gradients_all ps metrics_dict =
     (case log_gradients_loop ps metrics_dict 0 of
        Inl e \<Rightarrow> Inl e
      | Inr (md, total_grad) \<Rightarrow> Inr (AList.update ''Gradients/Total'' total_grad md))"

text \<open>
  \<open>Trainer.train_iteration\<close>: the calls made, and the returned
  \<open>(loss, loss_dict, metrics_dict)\<close> or the exception raised.
\<close>

definition train_iteration ::
  "trainer \<Rightarrow> iter_env \<Rightarrow> int \<Rightarrow> call list \<times> (exn + (real \<times> tensor_dict \<times> tensor_dict))"
where
  "train_iteration self env step =
     (let gas = gradient_accumulation_steps self in
      if \<not> gas > 0 then ([ZeroGradAll], Inl AssertionError)
      else
        (case sub_steps env step gas [0 ..< nat gas] [ZeroGradAll] None of
           (tr, Inl e) \<Rightarrow> (tr, Inl e)
         | (tr, Inr None) \<Rightarrow> (tr @ [OptimizerScalerStepAll], Inl UnboundLocalError)
         | (tr, Inr (Some (loss, loss_dict, metrics_dict))) \<Rightarrow>
             (case (if cfg_log_gradients (config self)
                    then log_gradients_all (named_parameters env) metrics_dict
                    else Inr metrics_dict) of
                Inl e \<Rightarrow> (tr @ [OptimizerScalerStepAll], Inl e)
              | Inr metrics_dict' \<Rightarrow>
                  (tr @ [OptimizerScalerStepAll, GetScale, ScalerUpdate, GetScale]
                      @ (if scale_before env \<le> scale_after env then [SchedulerStepAll step] else []),
                   Inr (loss, loss_dict, metrics_dict')))))"

subsection \<open>The schedulers behind the calls\<close>

text \<open>
  Modelled from the spec: the class \<open>Optimizers\<close> (\<open>nerfstudio.engine.optimizers\<close>) is
  not among the sources. The spec's Optimizer Group maps each group name to an optimizer
  and a scheduler and offers zero-grad, step and scheduler-step; only scheduler-step
  advances a scheduler. A scheduler is represented by its internal step counter.
\<close>

type_synonym schedulers = "(string \<times> nat) list"

definition scheduler_step_all :: "schedulers \<Rightarrow> schedulers" where
  "scheduler_step_all scheds = map (\<lambda>(name, count). (name, Suc count)) scheds"

fun schedulers_after_call :: "call \<Rightarrow> schedulers \<Rightarrow> schedulers" where
  "schedulers_after_call (SchedulerStepAll step) scheds = scheduler_step_all scheds"
| "schedulers_after_call _ scheds = scheds"

definition schedulers_after :: "call list \<Rightarrow> schedulers \<Rightarrow> schedulers" where
  "schedulers_after tr scheds = fold schedulers_after_call tr scheds"

fun is_scheduler_step :: "call \<Rightarrow> bool" where
  "is_scheduler_step (SchedulerStepAll step) = True"
| "is_scheduler_step _ = False"

section \<open>Viewer updates\<close>

text \<open>
  What \<open>_update_viewer_state\<close> does to the outside: the call of the viewer, the sleep
  and the console message.
\<close>

datatype effect =
    UpdateScene int int
  | Sleep real
  | ConsoleLog string

text \<open>
  \<open>Trainer._update_viewer_state\<close>. The decorator \<open>check_viewer_enabled\<close> is not among
  the sources: its decision is the parameter \<open>viewer_enabled\<close>, and the body runs only
  when it holds. \<open>has_viewer_state\<close> is \<open>self.viewer_state is not None\<close>;
  \<open>update_scene step n\<close> is the exception \<open>viewer_state.update_scene(step, n)\<close> raises,
  if any.
\<close>

definition update_viewer_state ::
  "bool \<Rightarrow> bool \<Rightarrow> int \<Rightarrow> (int \<Rightarrow> int \<Rightarrow> exn option) \<Rightarrow> int \<Rightarrow> effect list \<times> exn option"
where
  "update_viewer_state viewer_enabled has_viewer_state num_rays_per_batch update_scene step =
     (if \<not> viewer_enabled then ([], None)
      else if \<not> has_viewer_state then ([], Some AssertionError)
      else (case update_scene step num_rays_per_batch of
              None \<Rightarrow> ([UpdateScene step num_rays_per_batch], None)
            | Some e \<Rightarrow>
                if is_RuntimeError e
                then ([UpdateScene step num_rays_per_batch, Sleep (3 / 100),
                       ConsoleLog ''Viewer failed. Continuing training.''], None)
                else ([UpdateScene step num_rays_per_batch], Some e)))"

section \<open>Restoring the pipeline state\<close>

text \<open>\<open>s.startswith(p)\<close>.\<close>

definition startswith :: "string \<Rightarrow> string \<Rightarrow> bool" where
  "startswith s p = (take (length p) s = p)"

text \<open>
  A dictionary built entry by entry: a key met again keeps its place and takes the later
  value.
\<close>

definition dict_of :: "('k \<times> 'v) list \<Rightarrow> ('k \<times> 'v) list" where
  "dict_of kvs = fold (\<lambda>(k, v) d. AList.update k v d) kvs []"

text \<open>\<open>not strict\<close> for \<open>strict: Optional[bool]\<close>.\<close>

definition py_not :: "bool option \<Rightarrow> bool" where
  "py_not strict = (case strict of None \<Rightarrow> True | Some b \<Rightarrow> \<not> b)"

text \<open>
  The first half of \<open>Pipeline.load_state_dict\<close>: the entries under \<open>_model.\<close> with
  that prefix removed, and with the prefix \<open>module.\<close> removed too when every one of them
  carries it; and the remaining entries.
\<close>

definition model_state_of :: "(string \<times> 'v) list \<Rightarrow> (string \<times> 'v) list" where
  "model_state_of state_dict =
     (let entries = filter (\<lambda>(key, v). startswith key ''_model.'') state_dict;
          is_ddp_model_state = list_all (\<lambda>(key, v). startswith key ''_model.module.'') entries;
          model_state = dict_of (map (\<lambda>(key, v). (drop (length ''_model.'') key, v)) entries)
      in if is_ddp_model_state
         then dict_of (map (\<lambda>(key, v). (drop (length ''module.'') key, v)) model_state)
         else model_state)"

definition pipeline_state_of :: "(string \<times> 'v) list \<Rightarrow> (string \<times> 'v) list" where
  "pipeline_state_of state_dict = filter (\<lambda>(key, v). \<not> startswith key ''_model.'') state_dict"

text \<open>
  The calls of torch's \<open>Module.load_state_dict\<close>: on the model, with the \<open>strict\<close> flag
  passed, and on the pipeline module itself (\<open>super().load_state_dict\<close>).
\<close>

datatype load_call = ModelLoadStateDict bool | ModuleLoadStateDict

text \<open>
  \<open>Pipeline.load_state_dict\<close>. torch's loader is a parameter: \<open>model_load strict sd m\<close>
  is the model after \<open>self.model.load_state_dict(sd, strict=strict)\<close> and the exception
  it raised, if any (a failed load may already have copied entries); \<open>module_load\<close> is
  the same for \<open>super().load_state_dict(pipeline_state, strict=False)\<close>. The result is
  the loader calls made, the pipeline (model and own module state) and the exception
  raised, if any.
\<close>

definition load_state_dict ::
  "(bool \<Rightarrow> (string \<times> 'v) list \<Rightarrow> 'm \<Rightarrow> 'm \<times> exn option)
     \<Rightarrow> ((string \<times> 'v) list \<Rightarrow> 'p \<Rightarrow> 'p \<times> exn option)
     \<Rightarrow> 'm \<times> 'p \<Rightarrow> (string \<times> 'v) list \<Rightarrow> bool option
     \<Rightarrow> load_call list \<times> ('m \<times> 'p) \<times> exn option"
where
  "load_state_dict model_load module_load self state_dict strict =
     (let model_state = model_state_of state_dict;
          pipeline_state = pipeline_state_of state_dict;
          (m, p) = self;
          finish = (\<lambda>tr m'. (case module_load pipeline_state p of
                                 (p', r) \<Rightarrow> (tr @ [ModuleLoadStateDict], (m', p'), r)))
      in (case model_load True model_state m of
            (m1, None) \<Rightarrow> finish [ModelLoadStateDict True] m1
          | (m1, Some e) \<Rightarrow>
              if is_RuntimeError e then
                (if py_not strict then
                   (case model_load False model_state m1 of
                      (m2, None) \<Rightarrow> finish [ModelLoadStateDict True, ModelLoadStateDict False] m2
                    | (m2, Some e2) \<Rightarrow>
                        ([ModelLoadStateDict True, ModelLoadStateDict False], (m2, p), Some e2))
                 else ([ModelLoadStateDict True], (m1, p), Some e))
              else ([ModelLoadStateDict True], (m1, p), Some e)))"

text \<open>
  \<open>VanillaPipeline.load_pipeline\<close>: a leading \<open>module.\<close> is removed from every key, the
  model is moved to the step, and \<open>load_state_dict\<close> is called without \<open>strict\<close>.
\<close>

definition load_pipeline ::
  "(bool \<Rightarrow> (string \<times> 'v) list \<Rightarrow> 'm \<Rightarrow> 'm \<times> exn option)
     \<Rightarrow> ((string \<times> 'v) list \<Rightarrow> 'p \<Rightarrow> 'p \<times> exn option)
     \<Rightarrow> (int \<Rightarrow> 'm \<Rightarrow> 'm)
     \<Rightarrow> 'm \<times> 'p \<Rightarrow> (string \<times> 'v) list \<Rightarrow> int
     \<Rightarrow> load_call list \<times> ('m \<times> 'p) \<times> exn option"
where
  "load_pipeline model_load module_load update_to_step self loaded_state step =
     (let state = dict_of (map (\<lambda>(key, v).
                     (if startswith key ''module.'' then drop (length ''module.'') key else key, v))
                   loaded_state);
          (m, p) = self
      in load_state_dict model_load module_load (update_to_step step m, p) state None)"

section \<open>The training loop\<close>

text \<open>
  What one pass through the loop of \<open>Trainer.train\<close> does to the outside, in order: the
  sleeps of the pause poll, the collaborator calls of \<open>train_iteration\<close>, the rate metric
  \<open>writer.put_time(name=EventName.TRAIN_RAYS_PER_SEC, duration, step)\<close>, and the effects
  of the viewer update.
\<close>

datatype train_event =
    PauseSleep
  | Calls "call list"
  | PutTimeTrainRaysPerSec real int
  | Viewer effect

text \<open>
  The surroundings of the loop. \<open>pause_polls step\<close> is how often the pause poll finds
  the state \<open>paused\<close> before another thread resumes training; \<open>before_iteration\<close> and
  \<open>after_iteration\<close> are the exceptions raised by \<open>pipeline.train()\<close> and the callbacks
  before, and by the callbacks after the iteration; \<open>train_duration step\<close> is
  \<open>train_t.duration\<close>; \<open>rest_of_iteration\<close> is the exception raised by what follows
  the viewer update in the loop body (logging, surface detection, evaluation, checkpoint,
  flush), which writes no rate metric.
\<close>

record loop_env =
  pause_polls :: "int \<Rightarrow> nat"
  before_iteration :: "int \<Rightarrow> exn option"
  iter_env_at :: "int \<Rightarrow> iter_env"
  after_iteration :: "int \<Rightarrow> exn option"
  train_duration :: "int \<Rightarrow> real"
  train_rays_per_batch :: int
  loop_viewer_enabled :: bool
  loop_has_viewer_state :: bool
  loop_update_scene :: "int \<Rightarrow> int \<Rightarrow> exn option"
  rest_of_iteration :: "int \<Rightarrow> exn option"

text \<open>The body of the \<open>for\<close> loop of \<open>Trainer.train\<close> at one step.\<close>

definition loop_body :: "trainer \<Rightarrow> loop_env \<Rightarrow> int \<Rightarrow> train_event list \<times> exn option" where
  "loop_body self env step =
     (let paused = replicate (pause_polls env step) PauseSleep in
      case before_iteration env step of
        Some e \<Rightarrow> (paused, Some e)
      | None \<Rightarrow>
          (case train_iteration self (iter_env_at env step) step of
             (calls, Inl e) \<Rightarrow> (paused @ [Calls calls], Some e)
           | (calls, Inr out) \<Rightarrow>
               (case after_iteration env step of
                  Some e \<Rightarrow> (paused @ [Calls calls], Some e)
                | None \<Rightarrow>
                    (let rate =
                           (if step > 1
                            then [PutTimeTrainRaysPerSec
                                    (real_of_int (world_size self * train_rays_per_batch env)
                                       / max (1 / 1000) (train_duration env step)) step]
                            else []);
                         (effects, raised) =
                           update_viewer_state (loop_viewer_enabled env) (loop_has_viewer_state env)
                             (train_rays_per_batch env) (loop_update_scene env) step;
                         events = paused @ [Calls calls] @ rate @ map Viewer effects
                     in (case raised of
                           Some e \<Rightarrow> (events, Some e)
                         | None \<Rightarrow> (events, rest_of_iteration env step))))))"

text \<open>The loop over the steps still to run; an exception ends it.\<close>

fun train_loop ::
  "trainer \<Rightarrow> loop_env \<Rightarrow> int list \<Rightarrow> train_event list \<Rightarrow> train_event list \<times> exn option"
where
  "train_loop self env [] events = (events, None)"
| "train_loop self env (step # steps) events =
     (case loop_body self env step of
        (evs, Some e) \<Rightarrow> (events @ evs, Some e)
      | (evs, None) \<Rightarrow> train_loop self env steps (events @ evs))"

text \<open>
  \<open>for step in range(self._start_step, self._start_step + num_iterations)\<close> with
  \<open>num_iterations = self.config.max_num_iterations\<close>.
\<close>

definition train_steps :: "trainer \<Rightarrow> int list" where
  "train_steps self = [start_step self .. start_step self + cfg_max_num_iterations (config self) - 1]"

definition train_iterations :: "trainer \<Rightarrow> loop_env \<Rightarrow> train_event list \<times> exn option" where
  "train_iterations self env = train_loop self env (train_steps self) []"

text \<open>The steps for which a log holds a rate metric, in order.\<close>

fun rate_metric_steps :: "train_event list \<Rightarrow> int list" where
  "rate_metric_steps [] = []"
| "rate_metric_steps (PutTimeTrainRaysPerSec duration step # evs) = step # rate_metric_steps evs"
| "rate_metric_steps (_ # evs) = rate_metric_steps evs"

section \<open>Checkpoint files\<close>

text \<open>
  The compound state \<open>save_checkpoint\<close> hands to \<open>torch.save\<close> and \<open>_load_checkpoint\<close>
  gets from \<open>torch.load\<close>. State dictionaries hold reals; \<open>ck_schedulers\<close> is \<open>None\<close>
  when a loaded file has no key \<open>schedulers\<close>.
\<close>

record checkpoint =
  ck_step :: int
  ck_pipeline :: tensor_dict
  ck_optimizers :: "(string \<times> tensor_dict) list"
  ck_schedulers :: "(string \<times> tensor_dict) list option"
  ck_scalers :: tensor_dict

text \<open>
  An entry of a directory: a file that was written in full, a file left behind by a
  write that failed, or a subdirectory. A directory is the list of its entries by name,
  in the order in which it is listed.
\<close>

datatype entry = Written checkpoint | Truncated | Subdirectory

type_synonym directory = "(string \<times> entry) list"

text \<open>\<open>f"step-{step:09d}.ckpt"\<close>.\<close>

definition ckpt_name :: "int \<Rightarrow> string" where
  "ckpt_name step = ''step-'' @ format_09d step @ ''.ckpt''"

text \<open>
  How \<open>torch.save\<close> ends: the file is written; or it raises before the file exists
  (it could not be opened, or the state could not be serialised); or it raises after the
  file was opened for writing. The exception raised is part of the outcome.
\<close>

datatype write_outcome = WriteOk | WriteFailedEarly exn | WriteFailedPartial exn

definition torch_save :: "write_outcome \<Rightarrow> checkpoint \<Rightarrow> string \<Rightarrow> directory \<Rightarrow> directory \<times> exn option" where
  "torch_save outcome state name dir =
     (case outcome of
        WriteOk \<Rightarrow> (AList.update name (Written state) dir, None)
      | WriteFailedEarly e \<Rightarrow> (dir, Some e)
      | WriteFailedPartial e \<Rightarrow> (AList.update name Truncated dir, Some e))"

text \<open>
  \<open>for f in self.checkpoint_dir.glob("*"): if f != ckpt_path: f.unlink()\<close> over the
  entries listed; \<open>unlink\<close> raises on a subdirectory.
\<close>

fun unlink_others :: "string \<Rightarrow> directory \<Rightarrow> directory \<Rightarrow> directory \<times> exn option" where
  "unlink_others keep [] dir = (dir, None)"
| "unlink_others keep ((name, e) # listed) dir =
     (if name \<noteq> keep
      then (case e of
              Subdirectory \<Rightarrow> (dir, Some IsADirectoryError)
            | _ \<Rightarrow> unlink_others keep listed (AList.delete name dir))
      else unlink_others keep listed dir)"

text \<open>
  What the trainer holds besides its configuration: the pipeline, and the states of the
  optimizers, the schedulers and the gradient scaler (each as its \<open>state_dict()\<close>).
\<close>

record 'pl components =
  comp_pipeline :: 'pl
  comp_optimizers :: "(string \<times> tensor_dict) list"
  comp_schedulers :: "(string \<times> tensor_dict) list"
  comp_scalers :: tensor_dict

text \<open>
  The dictionary \<open>save_checkpoint\<close> passes to \<open>torch.save\<close>; \<open>state_dict\<close> is
  \<open>state_dict()\<close> of the pipeline (of \<open>pipeline.module\<close> when the pipeline is wrapped).
\<close>

definition checkpoint_state :: "('pl \<Rightarrow> tensor_dict) \<Rightarrow> 'pl components \<Rightarrow> int \<Rightarrow> checkpoint" where
  "checkpoint_state state_dict comps step =
     \<lparr> ck_step = step,
       ck_pipeline = state_dict (comp_pipeline comps),
       ck_optimizers = comp_optimizers comps,
       ck_schedulers = Some (comp_schedulers comps),
       ck_scalers = comp_scalers comps \<rparr>"

text \<open>
  \<open>Trainer.save_checkpoint\<close>. The checkpoint directory is \<open>None\<close> while it does not
  exist. The decorator \<open>check_main_thread\<close> is not among the sources: its decision is
  the parameter \<open>main_process\<close>, and the body runs only when it holds.
\<close>

definition save_checkpoint ::
  "trainer \<Rightarrow> bool \<Rightarrow> ('pl \<Rightarrow> tensor_dict) \<Rightarrow> 'pl components \<Rightarrow> write_outcome
     \<Rightarrow> directory option \<Rightarrow> int \<Rightarrow> directory option \<times> exn option"
where
  "save_checkpoint self main_process state_dict comps outcome dir_opt step =
     (if \<not> main_process then (dir_opt, None)
      else
        (let dir = (case dir_opt of None \<Rightarrow> [] | Some d \<Rightarrow> d);
             ckpt_path = ckpt_name step;
             state = checkpoint_state state_dict comps step
         in (case torch_save outcome state ckpt_path dir of
               (dir1, Some e) \<Rightarrow> (Some dir1, Some e)
             | (dir1, None) \<Rightarrow>
                 if cfg_save_only_latest_checkpoint (config self)
                 then (case unlink_others ckpt_path dir1 dir1 of (dir2, r) \<Rightarrow> (Some dir2, r))
                 else (Some dir1, None))))"

text \<open>
  Consecutive saves, each at its step with the components of that moment and with a
  write that succeeds; the first exception ends the sequence.
\<close>

fun save_checkpoints ::
  "trainer \<Rightarrow> bool \<Rightarrow> ('pl \<Rightarrow> tensor_dict) \<Rightarrow> (int \<times> 'pl components) list
     \<Rightarrow> directory option \<Rightarrow> directory option \<times> exn option"
where
  "save_checkpoints self main_process state_dict [] dir_opt = (dir_opt, None)"
| "save_checkpoints self main_process state_dict ((step, comps) # saves) dir_opt =
     (case save_checkpoint self main_process state_dict comps WriteOk dir_opt step of
        (dir1, Some e) \<Rightarrow> (dir1, Some e)
      | (dir1, None) \<Rightarrow> save_checkpoints self main_process state_dict saves dir1)"

text \<open>A directory with no two entries of one name and no subdirectory.\<close>

definition regular_files :: "directory \<Rightarrow> bool" where
  "regular_files dir = (distinct (map fst dir) \<and> list_all (\<lambda>(name, e). e \<noteq> Subdirectory) dir)"

section \<open>Loading a checkpoint\<close>

text \<open>
  The file system as \<open>_load_checkpoint\<close> sees it: the directory at a path, if there is
  one.
\<close>

type_synonym file_system = "string \<Rightarrow> directory option"

text \<open>\<open>path.exists()\<close> and the entry at \<open>dir / name\<close>.\<close>

definition lookup_path :: "file_system \<Rightarrow> string \<Rightarrow> string \<Rightarrow> entry option" where
  "lookup_path fs dir name = (case fs dir of None \<Rightarrow> None | Some d \<Rightarrow> map_of d name)"

text \<open>
  \<open>torch.load\<close> on an entry that exists. What it raises on a file that is not a complete
  checkpoint is the parameter \<open>load_error\<close>.
\<close>

definition torch_load :: "exn \<Rightarrow> entry \<Rightarrow> exn + checkpoint" where
  "torch_load load_error e =
     (case e of
        Written state \<Rightarrow> Inr state
      | Truncated \<Rightarrow> Inl load_error
      | Subdirectory \<Rightarrow> Inl IsADirectoryError)"

text \<open>
  \<open>sorted(int(x[x.find("-") + 1 : x.find(".")]) for x in os.listdir(load_dir))[-1]\<close> on
  the names listed.
\<close>

definition latest_step :: "string list \<Rightarrow> exn + int" where
  "latest_step names =
     (case those (map step_of_name names) of
        None \<Rightarrow> Inl ValueError
      | Some steps \<Rightarrow> (if sort steps = [] then Inl IndexError else Inr (last (sort steps))))"

text \<open>
  The statements both branches of \<open>_load_checkpoint\<close> run on the loaded state. The step
  to resume at is set first; \<open>load_pipeline\<close> may raise.

  Modelled from the spec: \<open>Optimizers.load_optimizers\<close> and \<open>Optimizers.load_schedulers\<close>
  (\<open>nerfstudio.engine.optimizers\<close>) are not among the sources; by the spec a load
  restores the optimizer and scheduler states, and, with torch's
  \<open>GradScaler.load_state_dict\<close>, the scaler state: each replaces the state the trainer
  holds by the loaded one.
\<close>

definition restore_state ::
  "(bool \<Rightarrow> tensor_dict \<Rightarrow> 'm \<Rightarrow> 'm \<times> exn option)
     \<Rightarrow> (tensor_dict \<Rightarrow> 'p \<Rightarrow> 'p \<times> exn option)
     \<Rightarrow> (int \<Rightarrow> 'm \<Rightarrow> 'm)
     \<Rightarrow> trainer \<Rightarrow> ('m \<times> 'p) components \<Rightarrow> checkpoint
     \<Rightarrow> (trainer \<times> ('m \<times> 'p) components) \<times> exn option"
where
  "restore_state model_load module_load update_to_step self comps loaded_state =
     (let self1 = self\<lparr>start_step := ck_step loaded_state + 1\<rparr> in
      case load_pipeline model_load module_load update_to_step (comp_pipeline comps)
             (ck_pipeline loaded_state) (ck_step loaded_state) of
        (calls, pl, Some e) \<Rightarrow> ((self1, comps\<lparr>comp_pipeline := pl\<rparr>), Some e)
      | (calls, pl, None) \<Rightarrow>
          (let comps1 = comps\<lparr>comp_pipeline := pl, comp_optimizers := ck_optimizers loaded_state\<rparr>;
               comps2 = (case ck_schedulers loaded_state of
                           Some scheds \<Rightarrow>
                             if cfg_load_scheduler (config self)
                             then comps1\<lparr>comp_schedulers := scheds\<rparr>
                             else comps1
                         | None \<Rightarrow> comps1)
           in ((self1, comps2\<lparr>comp_scalers := ck_scalers loaded_state\<rparr>), None)))"

text \<open>
  The path \<open>load_path\<close> of the first branch: \<open>load_dir / f"step-{load_step:09d}.ckpt"\<close>
  with the configured \<open>load_step\<close> or, without one, the latest step of the directory
  listing (\<open>os.listdir\<close> raises when there is no such directory).
\<close>

definition resolve_load_step :: "file_system \<Rightarrow> trainer_config \<Rightarrow> string \<Rightarrow> exn + int" where
  "resolve_load_step fs cfg load_dir =
     (case cfg_load_step cfg of
        Some load_step \<Rightarrow> Inr load_step
      | None \<Rightarrow>
          (case fs load_dir of
             None \<Rightarrow> Inl FileNotFoundError
           | Some d \<Rightarrow> latest_step (map fst d)))"

text \<open>
  \<open>Trainer._load_checkpoint\<close>: the trainer and its components afterwards, and the
  exception raised, if any.
\<close>

definition load_checkpoint ::
  "(bool \<Rightarrow> tensor_dict \<Rightarrow> 'm \<Rightarrow> 'm \<times> exn option)
     \<Rightarrow> (tensor_dict \<Rightarrow> 'p \<Rightarrow> 'p \<times> exn option)
     \<Rightarrow> (int \<Rightarrow> 'm \<Rightarrow> 'm)
     \<Rightarrow> exn \<Rightarrow> file_system
     \<Rightarrow> trainer \<Rightarrow> ('m \<times> 'p) components
     \<Rightarrow> (trainer \<times> ('m \<times> 'p) components) \<times> exn option"
where
  "load_checkpoint model_load module_load update_to_step load_error fs self comps =
     (case cfg_load_dir (config self) of
        Some load_dir \<Rightarrow>
          (case resolve_load_step fs (config self) load_dir of
             Inl e \<Rightarrow> ((self, comps), Some e)
           | Inr load_step \<Rightarrow>
               (case lookup_path fs load_dir (ckpt_name load_step) of
                  None \<Rightarrow> ((self, comps), Some AssertionError)
                | Some entry \<Rightarrow>
                    (case torch_load load_error entry of
                       Inl e \<Rightarrow> ((self, comps), Some e)
                     | Inr loaded_state \<Rightarrow>
                         restore_state model_load module_load update_to_step self comps
                           loaded_state)))
      | None \<Rightarrow>
          (case cfg_load_checkpoint (config self) of
             Some (dir, name) \<Rightarrow>
               (case lookup_path fs dir name of
                  None \<Rightarrow> ((self, comps), Some AssertionError)
                | Some entry \<Rightarrow>
                    (case torch_load load_error entry of
                       Inl e \<Rightarrow> ((self, comps), Some e)
                     | Inr loaded_state \<Rightarrow>
                         restore_state model_load module_load update_to_step self comps
                           loaded_state))
           | None \<Rightarrow> ((self, comps), None)))"

section \<open>Intersections of the box edges with the plane\<close>

text \<open>
  Numbers are modelled as exact reals: rounding and overflow are abstracted away. What
  is kept of the arithmetic is how a division by zero ends, which depends on the
  operands \<open>derive_nsa\<close> is called with. With built-in Python numbers in built-in
  sequences (\<open>Plain\<close>) the division raises \<open>ZeroDivisionError\<close>, and
  \<open>starting_vertex + t * directional_vector\<close> raises \<open>TypeError\<close>, a sequence not being
  multiplied by a float. With numpy arrays or torch tensors (\<open>Arrays\<close>), as at the call
  in \<open>Trainer.train\<close>, the division yields an infinity or a NaN, for which
  \<open>0 <= t <= 1\<close> is false, and the vector arithmetic is elementwise.
\<close>

datatype operands = Plain | Arrays

datatype quotient = Finite real | Infinite | NaN

type_synonym vec3 = "real \<times> real \<times> real"

fun vec_add :: "vec3 \<Rightarrow> vec3 \<Rightarrow> vec3" where
  "vec_add (x1, y1, z1) (x2, y2, z2) = (x1 + x2, y1 + y2, z1 + z2)"

fun vec_scale :: "real \<Rightarrow> vec3 \<Rightarrow> vec3" where
  "vec_scale t (x, y, z) = (t * x, t * y, t * z)"

text \<open>\<open>a * v[0] + b * v[1] + c * v[2]\<close>.\<close>

fun plane_dot :: "real \<Rightarrow> real \<Rightarrow> real \<Rightarrow> vec3 \<Rightarrow> real" where
  "plane_dot a b c (x, y, z) = a * x + b * y + c * z"

text \<open>The statement \<open>t = -(...) / (...)\<close> of the loop body.\<close>

definition edge_parameter ::
  "operands \<Rightarrow> real \<Rightarrow> real \<Rightarrow> real \<Rightarrow> real \<Rightarrow> vec3 \<Rightarrow> vec3 \<Rightarrow> exn + quotient"
where
  "edge_parameter kind a b c d starting_vertex directional_vector =
     (let numerator = - (plane_dot a b c starting_vertex + d);
          denominator = plane_dot a b c directional_vector
      in if denominator \<noteq> 0 then Inr (Finite (numerator / denominator))
         else (case kind of
                 Plain \<Rightarrow> Inl ZeroDivisionError
               | Arrays \<Rightarrow> Inr (if numerator = 0 then NaN else Infinite)))"

text \<open>\<open>0 <= t <= 1\<close>.\<close>

fun in_unit_interval :: "quotient \<Rightarrow> bool" where
  "in_unit_interval (Finite t) = (0 \<le> t \<and> t \<le> 1)"
| "in_unit_interval Infinite = False"
| "in_unit_interval NaN = False"

text \<open>
  The body of the inner loop for the edge \<open>(i, j)\<close>: \<open>vertices[i]\<close> raises
  \<open>IndexError\<close> beyond the vertices given; the end vertex \<open>j\<close> is not read.
\<close>

definition edge_body ::
  "operands \<Rightarrow> real \<Rightarrow> real \<Rightarrow> real \<Rightarrow> real \<Rightarrow> vec3 list \<Rightarrow> vec3 \<Rightarrow> nat \<times> nat
     \<Rightarrow> vec3 list \<Rightarrow> exn + vec3 list"
where
  "edge_body kind a b c d vertices directional_vector edge intersections =
     (case edge of (i, j) \<Rightarrow>
        if \<not> i < length vertices then Inl IndexError
        else
          (let starting_vertex = vertices ! i in
           case edge_parameter kind a b c d starting_vertex directional_vector of
             Inl e \<Rightarrow> Inl e
           | Inr t \<Rightarrow>
               if in_unit_interval t
               then (case t of
                       Finite tv \<Rightarrow>
                         (case kind of
                            Plain \<Rightarrow> Inl TypeError
                          | Arrays \<Rightarrow>
                              Inr (intersections
                                   @ [vec_add starting_vertex (vec_scale tv directional_vector)]))
                     | _ \<Rightarrow> Inr intersections)
               else Inr intersections))"

text \<open>\<open>for i, j in edge_indices\<close>.\<close>

fun edge_loop ::
  "operands \<Rightarrow> real \<Rightarrow> real \<Rightarrow> real \<Rightarrow> real \<Rightarrow> vec3 list \<Rightarrow> vec3 \<Rightarrow> (nat \<times> nat) list
     \<Rightarrow> vec3 list \<Rightarrow> exn + vec3 list"
where
  "edge_loop kind a b c d vertices directional_vector [] intersections = Inr intersections"
| "edge_loop kind a b c d vertices directional_vector (edge # edge_indices) intersections =
     (case edge_body kind a b c d vertices directional_vector edge intersections of
        Inl e \<Rightarrow> Inl e
      | Inr intersections' \<Rightarrow>
          edge_loop kind a b c d vertices directional_vector edge_indices intersections')"

text \<open>The dictionary \<open>edges\<close>, in its order.\<close>

definition edges :: "(string \<times> (nat \<times> nat) list) list" where
  "edges =
     [(''x'', [(0, 4), (1, 5), (2, 6), (3, 7)]),
      (''y'', [(0, 2), (1, 3), (4, 6), (5, 7)]),
      (''z'', [(0, 1), (2, 3), (4, 5), (6, 7)])]"

text \<open>\<open>for direction, edge_indices in edges.items()\<close>.\<close>

fun direction_loop ::
  "operands \<Rightarrow> real \<Rightarrow> real \<Rightarrow> real \<Rightarrow> real \<Rightarrow> vec3 list \<Rightarrow> vec3 \<Rightarrow> vec3 \<Rightarrow> vec3
     \<Rightarrow> (string \<times> (nat \<times> nat) list) list \<Rightarrow> vec3 list \<Rightarrow> exn + vec3 list"
where
  "direction_loop kind a b c d vertices x_dir y_dir z_dir [] intersections = Inr intersections"
| "direction_loop kind a b c d vertices x_dir y_dir z_dir ((direction, edge_indices) # rest)
     intersections =
     (let directional_vector =
            (if direction = ''x'' then x_dir else if direction = ''y'' then y_dir else z_dir)
      in case edge_loop kind a b c d vertices directional_vector edge_indices intersections of
           Inl e \<Rightarrow> Inl e
         | Inr intersections' \<Rightarrow>
             direction_loop kind a b c d vertices x_dir y_dir z_dir rest intersections')"

text \<open>\<open>Trainer.derive_nsa\<close>.\<close>

definition derive_nsa ::
  "operands \<Rightarrow> real \<Rightarrow> real \<Rightarrow> real \<Rightarrow> real \<Rightarrow> vec3 list \<Rightarrow> vec3 \<Rightarrow> vec3 \<Rightarrow> vec3
     \<Rightarrow> exn + vec3 list"
where
  "derive_nsa kind a b c d vertices x_dir y_dir z_dir =
     direction_loop kind a b c d vertices x_dir y_dir z_dir edges []"

subsection \<open>The intersections as the specification words them\<close>

text \<open>
  The twelve edges as start vertex index and direction: four parallel edges for each of
  the three axis directions.
\<close>

definition box_edges :: "vec3 \<Rightarrow> vec3 \<Rightarrow> vec3 \<Rightarrow> (nat \<times> vec3) list" where
  "box_edges x_dir y_dir z_dir =
     [(0, x_dir), (1, x_dir), (2, x_dir), (3, x_dir),
      (0, y_dir), (1, y_dir), (4, y_dir), (5, y_dir),
      (0, z_dir), (2, z_dir), (4, z_dir), (6, z_dir)]"

text \<open>
  The solution \<open>t\<close> of the edge equation, the test that it exists and lies in \<open>[0, 1]\<close>,
  and the point \<open>start + t \<cdot> direction\<close>.
\<close>

definition spec_t :: "real \<Rightarrow> real \<Rightarrow> real \<Rightarrow> real \<Rightarrow> vec3 \<Rightarrow> vec3 \<Rightarrow> real" where
  "spec_t a b c d s v = - (plane_dot a b c s + d) / plane_dot a b c v"

definition spec_crosses :: "real \<Rightarrow> real \<Rightarrow> real \<Rightarrow> real \<Rightarrow> vec3 list \<Rightarrow> nat \<times> vec3 \<Rightarrow> bool" where
  "spec_crosses a b c d vertices edge =
     (case edge of (i, v) \<Rightarrow>
        plane_dot a b c v \<noteq> 0
        \<and> 0 \<le> spec_t a b c d (vertices ! i) v \<and> spec_t a b c d (vertices ! i) v \<le> 1)"

definition spec_point :: "real \<Rightarrow> real \<Rightarrow> real \<Rightarrow> real \<Rightarrow> vec3 list \<Rightarrow> nat \<times> vec3 \<Rightarrow> vec3" where
  "spec_point a b c d vertices edge =
     (case edge of (i, v) \<Rightarrow>
        vec_add (vertices ! i) (vec_scale (spec_t a b c d (vertices ! i) v) v))"

text \<open>
  A box whose edges are its direction vectors: each edge \<open>(i, j)\<close> of \<open>edges\<close> leads from
  vertex \<open>i\<close> to vertex \<open>j\<close> by the direction of its group.
\<close>

definition box_of_directions :: "vec3 list \<Rightarrow> vec3 \<Rightarrow> vec3 \<Rightarrow> vec3 \<Rightarrow> bool" where
  "box_of_directions vertices x_dir y_dir z_dir =
     (length vertices = 8
      \<and> list_all (\<lambda>(i, j). vertices ! j = vec_add (vertices ! i) x_dir)
           [(0, 4), (1, 5), (2, 6), (3, 7)]
      \<and> list_all (\<lambda>(i, j). vertices ! j = vec_add (vertices ! i) y_dir)
           [(0, 2), (1, 3), (4, 6), (5, 7)]
      \<and> list_all (\<lambda>(i, j). vertices ! j = vec_add (vertices ! i) z_dir)
           [(0, 1), (2, 3), (4, 5), (6, 7)])"

text \<open>All vertices strictly on one side of the plane \<open>a x + b y + c z + d = 0\<close>.\<close>

definition one_side :: "real \<Rightarrow> real \<Rightarrow> real \<Rightarrow> real \<Rightarrow> vec3 list \<Rightarrow> bool" where
  "one_side a b c d vertices =
     (list_all (\<lambda>v. 0 < plane_dot a b c v + d) vertices
      \<or> list_all (\<lambda>v. plane_dot a b c v + d < 0) vertices)"

section \<open>Concrete configurations used to instantiate the theorems\<close>

definition example_config :: trainer_config where
  "example_config =
     \<lparr> machine_device_type = ''cpu'',
       cfg_mixed_precision = True,
       cfg_use_grad_scaler = False,
       cfg_gradient_accumulation_steps = 2,
       cfg_log_gradients = True,
       cfg_save_only_latest_checkpoint = True,
       cfg_steps_per_save = 1000,
       cfg_max_num_iterations = 4,
       cfg_load_dir = None,
       cfg_load_step = None,
       cfg_load_checkpoint = None,
       cfg_load_scheduler = True,
       cfg_checkpoint_dir = ''ckpts'' \<rparr>"

definition example_trainer :: trainer where
  "example_trainer = trainer_init example_config 0 1"

definition example_loss_dicts :: "nat \<Rightarrow> tensor_dict" where
  "example_loss_dicts k =
     (if k = 0 then [(''rgb_loss'', 4), (''distortion_loss'', 2)] else [(''rgb_loss'', 8)])"

definition example_env :: "real \<Rightarrow> real \<Rightarrow> iter_env" where
  "example_env before after =
     \<lparr> loss_dicts = (\<lambda>k. Inr (example_loss_dicts k, [(''psnr'', 20)])),
       named_parameters = [(''field.weight'', Some 3), (''field.bias'', None)],
       scale_before = before,
       scale_after = after \<rparr>"

text \<open>
  A loader in the manner of torch's: a strict load copies the entries it knows and then
  raises when the keys differ from the module's; a relaxed load ignores foreign keys.
\<close>

definition example_model_load ::
  "bool \<Rightarrow> (string \<times> nat) list \<Rightarrow> (string \<times> nat) list \<Rightarrow> (string \<times> nat) list \<times> exn option"
where
  "example_model_load strict sd m =
     (let m' = map (\<lambda>(k, v). (k, case map_of sd k of None \<Rightarrow> v | Some w \<Rightarrow> w)) m;
          unexpected = filter (\<lambda>k. map_of m k = None) (map fst sd);
          missing = filter (\<lambda>k. map_of sd k = None) (map fst m)
      in (m', if strict \<and> (unexpected \<noteq> [] \<or> missing \<noteq> []) then Some RuntimeError else None))"

definition example_module_load ::
  "(string \<times> nat) list \<Rightarrow> (string \<times> nat) list \<Rightarrow> (string \<times> nat) list \<times> exn option"
where
  "example_module_load sd p = (fst (example_model_load False sd p), None)"

definition example_state_dict :: "(string \<times> nat) list" where
  "example_state_dict =
     [(''_model.field.weight'', 5), (''_model.field.extra'', 9), (''datamanager.pose'', 3)]"

definition example_model :: "(string \<times> nat) list" where
  "example_model = [(''field.weight'', 1), (''field.bias'', 2)]"

definition example_loop_env :: loop_env where
  "example_loop_env =
     \<lparr> pause_polls = (\<lambda>step. if step = 2 then 1 else 0),
       before_iteration = (\<lambda>step. None),
       iter_env_at = (\<lambda>step. example_env 1 1),
       after_iteration = (\<lambda>step. None),
       train_duration = (\<lambda>step. 1 / 2),
       train_rays_per_batch = 4096,
       loop_viewer_enabled = True,
       loop_has_viewer_state = True,
       loop_update_scene = (\<lambda>step n. if step = 1 then Some RuntimeError else None),
       rest_of_iteration = (\<lambda>step. None) \<rparr>"

definition example_components :: "tensor_dict components" where
  "example_components =
     \<lparr> comp_pipeline = [(''_model.field.weight'', 5)],
       comp_optimizers = [(''fields'', [(''lr'', 1 / 100)])],
       comp_schedulers = [(''fields'', [(''last_epoch'', 7)])],
       comp_scalers = [(''scale'', 65536)] \<rparr>"

definition example_directory :: directory where
  "example_directory = [(''old.ckpt'', Truncated), (''notes.txt'', Truncated)]"

definition example_checkpoint :: "int \<Rightarrow> checkpoint" where
  "example_checkpoint step =
     \<lparr> ck_step = step,
       ck_pipeline = [(''_model.field.weight'', real_of_int step), (''datamanager.pose'', 3)],
       ck_optimizers = [(''fields'', [(''lr'', 1 / 100)])],
       ck_schedulers = Some [(''fields'', [(''last_epoch'', real_of_int step)])],
       ck_scalers = [(''scale'', 65536)] \<rparr>"

definition example_file_system :: file_system where
  "example_file_system path =
     (if path = ''outputs/ckpts''
      then Some [(ckpt_name 2000, Written (example_checkpoint 2000)),
                 (ckpt_name 1000, Written (example_checkpoint 1000))]
      else None)"

definition example_fresh_components :: "(tensor_dict \<times> tensor_dict) components" where
  "example_fresh_components =
     \<lparr> comp_pipeline = ([(''field.weight'', 0)], [(''datamanager.pose'', 0)]),
       comp_optimizers = [(''fields'', [(''lr'', 1)])],
       comp_schedulers = [(''fields'', [(''last_epoch'', 0)])],
       comp_scalers = [(''scale'', 1)] \<rparr>"

definition example_resume_trainer :: "string option \<Rightarrow> int option \<Rightarrow> (string \<times> string) option \<Rightarrow> trainer" where
  "example_resume_trainer dir step file =
     example_trainer\<lparr>config := (config example_trainer)
       \<lparr>cfg_load_dir := dir, cfg_load_step := step, cfg_load_checkpoint := file\<rparr>\<rparr>"

definition example_restored_components :: "int \<Rightarrow> (tensor_dict \<times> tensor_dict) components" where
  "example_restored_components step =
     \<lparr> comp_pipeline = ([(''field.weight'', real_of_int step)], [(''datamanager.pose'', 3)]),
       comp_optimizers = [(''fields'', [(''lr'', 1 / 100)])],
       comp_schedulers = [(''fields'', [(''last_epoch'', real_of_int step)])],
       comp_scalers = [(''scale'', 65536)] \<rparr>"

section \<open>Properties of the constructor\<close>

text \<open>
  C10. \<open>Trainer.__init__\<close> computes \<open>use_grad_scaler\<close> from the requested mixed precision
  before the CPU check switches \<open>mixed_precision\<close> off: for every configuration on a CPU
  device that requests mixed precision, the constructed trainer has
  \<open>mixed_precision = False\<close> while \<open>use_grad_scaler = True\<close> and the gradient scaler is
  constructed enabled.
\<close>

theorem init_cpu_mixed_precision_keeps_scaler:
  assumes "machine_device_type cfg = ''cpu''"
      and "cfg_mixed_precision cfg"
  shows "mixed_precision (trainer_init cfg rank wsize) = False
       \<and> use_grad_scaler (trainer_init cfg rank wsize) = True
       \<and> grad_scaler_enabled (trainer_init cfg rank wsize) = True"
  using assms by (simp add: trainer_init_def Let_def)

theorem init_cpu_mixed_precision_keeps_scaler_witness:
  "machine_device_type example_config = ''cpu''
     \<and> cfg_mixed_precision example_config
     \<and> mixed_precision (trainer_init example_config 0 1) = False
     \<and> use_grad_scaler (trainer_init example_config 0 1) = True
     \<and> grad_scaler_enabled (trainer_init example_config 0 1) = True"
proof -
  have dev: "machine_device_type example_config = ''cpu''"
    and mixed: "cfg_mixed_precision example_config"
    by (simp_all add: example_config_def)
  from init_cpu_mixed_precision_keeps_scaler [OF dev mixed, of 0 1] dev mixed
  show ?thesis by simp
qed

section \<open>Properties of one training iteration\<close>

lemma reduce_add_sum:
  "vs \<noteq> [] \<Longrightarrow> reduce_add vs = Inr (sum_list vs)"
  by (cases vs) (simp_all add: reduce_add_def foldl_conv_fold fold_plus_sum_list_rev ac_simps)

lemma sub_steps_no_scheduler_step:
  "sub_steps env step gas ks tr b = (tr', r)
     \<Longrightarrow> filter is_scheduler_step tr' = filter is_scheduler_step tr"
proof (induction ks arbitrary: tr b)
  case Nil
  then show ?case by simp
next
  case (Cons k ks)
  show ?case
  proof (cases "sub_step env step gas k")
    case (Pair cs res)
    have cs: "filter is_scheduler_step cs = []"
      using Pair by (auto simp: sub_step_def Let_def split: sum.splits prod.splits)
    show ?thesis
    proof (cases res)
      case (Inl e)
      with Cons.prems Pair cs show ?thesis by auto
    next
      case (Inr v)
      with Cons.prems Pair have "sub_steps env step gas ks (tr @ cs) (Some v) = (tr', r)"
        by simp
      from Cons.IH [OF this] cs show ?thesis by simp
    qed
  qed
qed

lemma schedulers_after_no_step:
  "filter is_scheduler_step tr = [] \<Longrightarrow> schedulers_after tr scheds = scheds"
  unfolding schedulers_after_def
proof (induction tr arbitrary: scheds)
  case Nil
  then show ?case by simp
next
  case (Cons c tr)
  then show ?case by (cases c) (simp_all split: if_splits)
qed

lemma schedulers_after_append:
  "schedulers_after (xs @ ys) scheds = schedulers_after ys (schedulers_after xs scheds)"
  by (simp add: schedulers_after_def)

lemma example_train_iteration_skip:
  "train_iteration example_trainer (example_env 65536 32768) 7 =
     ([ZeroGradAll, GetTrainLossDict 7, ScaleBackward 3, GetTrainLossDict 7, ScaleBackward 4,
       OptimizerScalerStepAll, GetScale, ScalerUpdate, GetScale],
      Inr (4, [(''rgb_loss'', 4)],
           [(''psnr'', 20), (''Gradients/field.weight'', 3), (''Gradients/Total'', 3)]))"
  by (simp add: train_iteration_def example_trainer_def trainer_init_def example_config_def Let_def
      example_env_def example_loss_dicts_def sub_step_def reduce_add_def log_gradients_all_def
      upt_rec)

lemma example_train_iteration_step:
  "train_iteration example_trainer (example_env 65536 65536) 7 =
     ([ZeroGradAll, GetTrainLossDict 7, ScaleBackward 3, GetTrainLossDict 7, ScaleBackward 4,
       OptimizerScalerStepAll, GetScale, ScalerUpdate, GetScale, SchedulerStepAll 7],
      Inr (4, [(''rgb_loss'', 4)],
           [(''psnr'', 20), (''Gradients/field.weight'', 3), (''Gradients/Total'', 3)]))"
  by (simp add: train_iteration_def example_trainer_def trainer_init_def example_config_def Let_def
      example_env_def example_loss_dicts_def sub_step_def reduce_add_def log_gradients_all_def
      upt_rec)

text \<open>
  C1. In every call of \<open>train_iteration\<close> that returns, if the scale the gradient scaler
  reports after its \<open>update\<close> is strictly smaller than the scale it reported before, no
  \<open>scheduler_step_all\<close> is called and every scheduler's step counter is unchanged after
  the iteration; if the scale is unchanged or larger, \<open>scheduler_step_all\<close> is called
  exactly once, with the iteration's step.
\<close>

theorem train_iteration_scheduler_skip:
  assumes "train_iteration self env step = (tr, Inr out)"
  shows "(scale_after env < scale_before env \<longrightarrow>
            filter is_scheduler_step tr = [] \<and> schedulers_after tr scheds = scheds)
       \<and> (scale_before env \<le> scale_after env \<longrightarrow>
            filter is_scheduler_step tr = [SchedulerStepAll step]
            \<and> schedulers_after tr scheds = scheduler_step_all scheds)"
proof -
  let ?gas = "gradient_accumulation_steps self"
  from assms have pos: "?gas > 0"
    by (auto simp: train_iteration_def Let_def split: if_splits)
  obtain tr1 res
    where ss: "sub_steps env step ?gas [0 ..< nat ?gas] [ZeroGradAll] None = (tr1, res)"
    by (cases "sub_steps env step ?gas [0 ..< nat ?gas] [ZeroGradAll] None")
  have none1: "filter is_scheduler_step tr1 = []"
    using sub_steps_no_scheduler_step [OF ss] by simp
  from assms pos ss
  have tr: "tr = tr1 @ [OptimizerScalerStepAll, GetScale, ScalerUpdate, GetScale]
      @ (if scale_before env \<le> scale_after env then [SchedulerStepAll step] else [])"
    by (auto simp: train_iteration_def Let_def
        split: sum.splits option.splits prod.splits if_splits)
  show ?thesis
  proof (cases "scale_before env \<le> scale_after env")
    case True
    have "schedulers_after tr1 scheds = scheds"
      using none1 by (rule schedulers_after_no_step)
    with True tr none1 show ?thesis
      by (simp add: schedulers_after_append) (simp add: schedulers_after_def)
  next
    case False
    with tr none1 have "filter is_scheduler_step tr = []" by simp
    with False show ?thesis by (simp add: schedulers_after_no_step)
  qed
qed

theorem train_iteration_scheduler_skip_witness:
  "(\<exists>tr out. train_iteration example_trainer (example_env 65536 32768) 7 = (tr, Inr out)
       \<and> scale_after (example_env 65536 32768) < scale_before (example_env 65536 32768)
       \<and> filter is_scheduler_step tr = []
       \<and> schedulers_after tr [(''fields'', 6), (''proposal_networks'', 6)]
           = [(''fields'', 6), (''proposal_networks'', 6)])
   \<and> (\<exists>tr out. train_iteration example_trainer (example_env 65536 65536) 7 = (tr, Inr out)
       \<and> scale_before (example_env 65536 65536) \<le> scale_after (example_env 65536 65536)
       \<and> filter is_scheduler_step tr = [SchedulerStepAll 7]
       \<and> schedulers_after tr [(''fields'', 6), (''proposal_networks'', 6)]
           = [(''fields'', 7), (''proposal_networks'', 7)])"
proof (intro conjI)
  have lt: "scale_after (example_env 65536 32768) < scale_before (example_env 65536 32768)"
    by (simp add: example_env_def)
  from train_iteration_scheduler_skip [OF example_train_iteration_skip,
      of "[(''fields'', 6), (''proposal_networks'', 6)]"] lt
  show "\<exists>tr out. train_iteration example_trainer (example_env 65536 32768) 7 = (tr, Inr out)
       \<and> scale_after (example_env 65536 32768) < scale_before (example_env 65536 32768)
       \<and> filter is_scheduler_step tr = []
       \<and> schedulers_after tr [(''fields'', 6), (''proposal_networks'', 6)]
           = [(''fields'', 6), (''proposal_networks'', 6)]"
    using example_train_iteration_skip by blast
next
  have le: "scale_before (example_env 65536 65536) \<le> scale_after (example_env 65536 65536)"
    by (simp add: example_env_def)
  have "scheduler_step_all [(''fields'', 6), (''proposal_networks'', 6)]
      = [(''fields'', 7), (''proposal_networks'', 7)]"
    by (simp add: scheduler_step_all_def)
  with train_iteration_scheduler_skip [OF example_train_iteration_step,
      of "[(''fields'', 6), (''proposal_networks'', 6)]"] le
  show "\<exists>tr out. train_iteration example_trainer (example_env 65536 65536) 7 = (tr, Inr out)
       \<and> scale_before (example_env 65536 65536) \<le> scale_after (example_env 65536 65536)
       \<and> filter is_scheduler_step tr = [SchedulerStepAll 7]
       \<and> schedulers_after tr [(''fields'', 6), (''proposal_networks'', 6)]
           = [(''fields'', 7), (''proposal_networks'', 7)]"
    using example_train_iteration_step by auto
qed

text \<open>
  The two calls of one accumulation sub-step whose loss dictionary is \<open>lds k\<close>: the
  forward pass, then \<open>scale\<close> and \<open>backward\<close> on the summed loss divided by
  \<open>gradient_accumulation_steps\<close>.
\<close>

abbreviation sub_step_calls :: "(nat \<Rightarrow> tensor_dict) \<Rightarrow> int \<Rightarrow> int \<Rightarrow> nat \<Rightarrow> call list" where
  "sub_step_calls lds step gas k \<equiv>
     [GetTrainLossDict step, ScaleBackward (sum_list (map snd (lds k)) / real_of_int gas)]"

lemma sub_step_ok:
  assumes "loss_dicts env k = Inr (lds k, md)" and "lds k \<noteq> []"
  shows "\<exists>r. sub_step env step gas k = (sub_step_calls lds step gas k, Inr r)"
  using assms by (simp add: sub_step_def reduce_add_sum Let_def)

lemma sub_steps_ok:
  assumes "\<forall>k \<in> set ks. \<exists>md. loss_dicts env k = Inr (lds k, md) \<and> lds k \<noteq> []"
  shows "\<exists>r. sub_steps env step gas ks tr b
               = (tr @ concat (map (sub_step_calls lds step gas) ks), Inr r)
             \<and> (r = None \<longrightarrow> ks = [] \<and> b = None)"
  using assms
proof (induction ks arbitrary: tr b)
  case Nil
  then show ?case by simp
next
  case (Cons k ks)
  from Cons.prems obtain md where "loss_dicts env k = Inr (lds k, md)" and "lds k \<noteq> []"
    by auto
  then obtain r0 where r0: "sub_step env step gas k = (sub_step_calls lds step gas k, Inr r0)"
    using sub_step_ok by blast
  from Cons.prems have "\<forall>k \<in> set ks. \<exists>md. loss_dicts env k = Inr (lds k, md) \<and> lds k \<noteq> []"
    by simp
  from Cons.IH [OF this, of "tr @ sub_step_calls lds step gas k" "Some r0"] r0
  show ?case by auto
qed

text \<open>
  C2. A call of \<open>train_iteration\<close> with \<open>gradient_accumulation_steps \<ge> 1\<close> whose forward
  passes each return a non-empty loss dictionary calls \<open>zero_grad_all\<close> once, first, then
  runs exactly \<open>gradient_accumulation_steps\<close> sub-steps, each a forward pass followed by
  \<open>scale\<close> and \<open>backward\<close> on the summed loss divided by \<open>gradient_accumulation_steps\<close>,
  then calls \<open>optimizer_scaler_step_all\<close> once; what follows are only scaler queries, the
  scaler update and the scheduler step. With \<open>gradient_accumulation_steps \<le> 0\<close> the call
  raises an \<open>AssertionError\<close> having made no call but \<open>zero_grad_all\<close>, so before any
  backward pass.
\<close>

theorem train_iteration_accumulation:
  "(0 < gradient_accumulation_steps self
      \<and> (\<forall>k < nat (gradient_accumulation_steps self).
            \<exists>md. loss_dicts env k = Inr (lds k, md) \<and> lds k \<noteq> [])
    \<longrightarrow> (\<exists>rest. fst (train_iteration self env step) =
            ZeroGradAll
              # concat (map (sub_step_calls lds step (gradient_accumulation_steps self))
                          [0 ..< nat (gradient_accumulation_steps self)])
              @ OptimizerScalerStepAll # rest
          \<and> list_all (\<lambda>c. c = GetScale \<or> c = ScalerUpdate \<or> is_scheduler_step c) rest))
   \<and> (gradient_accumulation_steps self \<le> 0
    \<longrightarrow> train_iteration self env step = ([ZeroGradAll], Inl AssertionError))"
proof (intro conjI impI)
  let ?gas = "gradient_accumulation_steps self"
  assume h: "0 < ?gas \<and> (\<forall>k < nat ?gas. \<exists>md. loss_dicts env k = Inr (lds k, md) \<and> lds k \<noteq> [])"
  then have "\<forall>k \<in> set [0 ..< nat ?gas]. \<exists>md. loss_dicts env k = Inr (lds k, md) \<and> lds k \<noteq> []"
    by simp
  from sub_steps_ok [OF this, of step ?gas "[ZeroGradAll]" None]
  obtain r where r: "sub_steps env step ?gas [0 ..< nat ?gas] [ZeroGradAll] None =
      ([ZeroGradAll] @ concat (map (sub_step_calls lds step ?gas) [0 ..< nat ?gas]), Inr r)"
    and rn: "r = None \<longrightarrow> [0 ..< nat ?gas] = []"
    by blast
  from h rn obtain loss ld md where rs: "r = Some (loss, ld, md)"
    by (cases r) auto
  show "\<exists>rest. fst (train_iteration self env step) =
            ZeroGradAll # concat (map (sub_step_calls lds step ?gas) [0 ..< nat ?gas])
              @ OptimizerScalerStepAll # rest
          \<and> list_all (\<lambda>c. c = GetScale \<or> c = ScalerUpdate \<or> is_scheduler_step c) rest"
    using h r rs
    by (auto simp: train_iteration_def Let_def split: sum.splits)
next
  assume "gradient_accumulation_steps self \<le> 0"
  then show "train_iteration self env step = ([ZeroGradAll], Inl AssertionError)"
    by (simp add: train_iteration_def Let_def)
qed

theorem train_iteration_accumulation_witness:
  "0 < gradient_accumulation_steps example_trainer
   \<and> (\<exists>rest. fst (train_iteration example_trainer (example_env 1 1) 7) =
          [ZeroGradAll, GetTrainLossDict 7, ScaleBackward 3, GetTrainLossDict 7, ScaleBackward 4,
           OptimizerScalerStepAll] @ rest
        \<and> list_all (\<lambda>c. c = GetScale \<or> c = ScalerUpdate \<or> is_scheduler_step c) rest)
   \<and> gradient_accumulation_steps (example_trainer\<lparr>gradient_accumulation_steps := 0\<rparr>) \<le> 0
   \<and> train_iteration (example_trainer\<lparr>gradient_accumulation_steps := 0\<rparr>) (example_env 1 1) 7
       = ([ZeroGradAll], Inl AssertionError)"
proof -
  have gas: "gradient_accumulation_steps example_trainer = 2"
    by (simp add: example_trainer_def trainer_init_def example_config_def Let_def)
  have lds: "\<forall>k < nat (gradient_accumulation_steps example_trainer).
      \<exists>md. loss_dicts (example_env 1 1) k = Inr (example_loss_dicts k, md)
           \<and> example_loss_dicts k \<noteq> []"
    by (simp add: example_env_def example_loss_dicts_def)
  have calls: "concat (map (sub_step_calls example_loss_dicts 7 2) [0 ..< nat 2])
      = [GetTrainLossDict 7, ScaleBackward 3, GetTrainLossDict 7, ScaleBackward 4]"
    by (simp add: example_loss_dicts_def upt_rec)
  have zero: "gradient_accumulation_steps (example_trainer\<lparr>gradient_accumulation_steps := 0\<rparr>) \<le> 0"
    by simp
  from train_iteration_accumulation [of example_trainer "example_env 1 1" example_loss_dicts 7]
    gas lds calls
  have first: "\<exists>rest. fst (train_iteration example_trainer (example_env 1 1) 7) =
          [ZeroGradAll, GetTrainLossDict 7, ScaleBackward 3, GetTrainLossDict 7, ScaleBackward 4,
           OptimizerScalerStepAll] @ rest
        \<and> list_all (\<lambda>c. c = GetScale \<or> c = ScalerUpdate \<or> is_scheduler_step c) rest"
    by simp
  from train_iteration_accumulation
    [of "example_trainer\<lparr>gradient_accumulation_steps := 0\<rparr>" "example_env 1 1" example_loss_dicts 7]
    zero
  have second: "train_iteration (example_trainer\<lparr>gradient_accumulation_steps := 0\<rparr>)
      (example_env 1 1) 7 = ([ZeroGradAll], Inl AssertionError)"
    by blast
  from gas first zero second show ?thesis by simp
qed

section \<open>Properties of the viewer update\<close>

text \<open>
  C7, as stated, fails: with the viewer enabled, a failure of \<open>update_scene\<close> that is not
  a \<open>RuntimeError\<close> (here a \<open>ValueError\<close>) is not caught by \<open>_update_viewer_state\<close>; it
  leaves the method, with no sleep and no message.
\<close>

theorem update_viewer_state_propagates_other_failures:
  "update_viewer_state True True 4096 (\<lambda>step n. Some ValueError) 10
     = ([UpdateScene 10 4096], Some ValueError)"
  by (simp add: update_viewer_state_def)

text \<open>
  C7, amended. For every step, a \<open>RuntimeError\<close> (or an exception of a subclass) raised
  by the viewer during the scene update is caught in \<open>_update_viewer_state\<close> and turned
  into a sleep of 0.03 seconds followed by a console message, and the method returns
  normally; an exception of any other class leaves the method.
\<close>

theorem update_viewer_state_catches_RuntimeError:
  assumes "update_scene step n = Some e"
  shows "(is_RuntimeError e \<longrightarrow>
            update_viewer_state True True n update_scene step
              = ([UpdateScene step n, Sleep (3 / 100),
                  ConsoleLog ''Viewer failed. Continuing training.''], None))
       \<and> (\<not> is_RuntimeError e \<longrightarrow>
            update_viewer_state True True n update_scene step = ([UpdateScene step n], Some e))"
  using assms by (simp add: update_viewer_state_def)

theorem update_viewer_state_catches_RuntimeError_witness:
  "is_RuntimeError RuntimeError
   \<and> update_viewer_state True True 4096 (\<lambda>step n. Some RuntimeError) 10
       = ([UpdateScene 10 4096, Sleep (3 / 100),
           ConsoleLog ''Viewer failed. Continuing training.''], None)
   \<and> \<not> is_RuntimeError KeyError
   \<and> update_viewer_state True True 4096 (\<lambda>step n. Some KeyError) 10
       = ([UpdateScene 10 4096], Some KeyError)"
proof -
  have a: "(\<lambda>step n. Some RuntimeError) (10::int) (4096::int) = Some RuntimeError"
    and b: "(\<lambda>step n. Some KeyError) (10::int) (4096::int) = Some KeyError"
    by simp_all
  from update_viewer_state_catches_RuntimeError [OF a]
       update_viewer_state_catches_RuntimeError [OF b]
  show ?thesis by simp
qed

section \<open>Properties of the pipeline state restoration\<close>

text \<open>
  C8, as stated, fails in two ways. A strict load that fails with an exception that is
  not a \<open>RuntimeError\<close> (here a \<open>KeyError\<close>) is not retried although the caller
  permits a relaxed load (\<open>strict\<close> is \<open>None\<close>): it leaves \<open>load_state_dict\<close> after
  the one strict call. And when the relaxed retry itself fails, that failure leaves
  \<open>load_state_dict\<close> although the caller did not demand a strict load.
\<close>

theorem load_state_dict_failure_not_as_claimed:
  "load_state_dict (\<lambda>strict sd m. (m, Some KeyError)) (\<lambda>sd p. (p, None))
       ([(''field.weight'', 1::nat)], [(''datamanager.pose'', 0::nat)])
       [(''_model.field.weight'', 5)] None
     = ([ModelLoadStateDict True],
        ([(''field.weight'', 1)], [(''datamanager.pose'', 0)]), Some KeyError)
   \<and> load_state_dict (\<lambda>strict sd m. (m, Some RuntimeError)) (\<lambda>sd p. (p, None))
       ([(''field.weight'', 1::nat)], [(''datamanager.pose'', 0::nat)])
       [(''_model.field.weight'', 5)] None
     = ([ModelLoadStateDict True, ModelLoadStateDict False],
        ([(''field.weight'', 1)], [(''datamanager.pose'', 0)]), Some RuntimeError)"
  by (simp add: load_state_dict_def Let_def py_not_def)

text \<open>
  C8, amended. In \<open>Pipeline.load_state_dict\<close>, when the strict load of the model state
  raises a \<open>RuntimeError\<close> (or an exception of a subclass): the load is retried with
  \<open>strict=False\<close> exactly when the caller does not demand a strict load (\<open>strict\<close> is
  \<open>None\<close> or \<open>False\<close>), and the outcome is then that of the retry: its exception, if it
  raises one, and otherwise the load of the pipeline's own state; when the caller demands
  a strict load (\<open>strict\<close> is \<open>True\<close>) there is no retry and the \<open>RuntimeError\<close> is
  raised again. When the strict load raises an exception of any other class, there is no
  retry and that exception is raised, whatever \<open>strict\<close> is.
\<close>

theorem load_state_dict_strict_failure:
  assumes "model_load True (model_state_of state_dict) m = (m1, Some e)"
  shows "(is_RuntimeError e \<longrightarrow>
            (ModelLoadStateDict False
               \<in> set (fst (load_state_dict model_load module_load (m, p) state_dict strict)))
            = (strict \<noteq> Some True)
          \<and> (strict \<noteq> Some True \<longrightarrow>
               load_state_dict model_load module_load (m, p) state_dict strict
                 = (case model_load False (model_state_of state_dict) m1 of
                      (m2, Some e2) \<Rightarrow>
                        ([ModelLoadStateDict True, ModelLoadStateDict False], (m2, p), Some e2)
                    | (m2, None) \<Rightarrow>
                        (case module_load (pipeline_state_of state_dict) p of
                           (p', r) \<Rightarrow>
                             ([ModelLoadStateDict True, ModelLoadStateDict False,
                               ModuleLoadStateDict],
                              (m2, p'), r))))
          \<and> (strict = Some True \<longrightarrow>
               load_state_dict model_load module_load (m, p) state_dict strict
                 = ([ModelLoadStateDict True], (m1, p), Some e)))
       \<and> (\<not> is_RuntimeError e \<longrightarrow>
            load_state_dict model_load module_load (m, p) state_dict strict
              = ([ModelLoadStateDict True], (m1, p), Some e))"
proof (cases "is_RuntimeError e")
  case True
  with assms show ?thesis
    by (cases strict)
       (auto simp: load_state_dict_def Let_def py_not_def split: prod.splits option.splits)
next
  case False
  with assms show ?thesis
    by (simp add: load_state_dict_def Let_def)
qed

lemma example_model_state:
  "model_state_of example_state_dict = [(''field.weight'', 5), (''field.extra'', 9)]"
  by (simp add: model_state_of_def example_state_dict_def startswith_def dict_of_def Let_def)

lemma example_pipeline_state:
  "pipeline_state_of example_state_dict = [(''datamanager.pose'', 3)]"
  by (simp add: pipeline_state_of_def example_state_dict_def startswith_def)

lemma example_strict_load_fails:
  "example_model_load True (model_state_of example_state_dict) example_model
     = ([(''field.weight'', 5), (''field.bias'', 2)], Some RuntimeError)"
  by (simp add: example_model_state example_model_load_def example_model_def Let_def)

theorem load_state_dict_strict_failure_witness:
  "is_RuntimeError RuntimeError
   \<and> load_state_dict example_model_load example_module_load
        (example_model, [(''datamanager.pose'', 0)]) example_state_dict None
       = ([ModelLoadStateDict True, ModelLoadStateDict False, ModuleLoadStateDict],
          ([(''field.weight'', 5), (''field.bias'', 2)], [(''datamanager.pose'', 3)]), None)
   \<and> load_state_dict example_model_load example_module_load
        (example_model, [(''datamanager.pose'', 0)]) example_state_dict (Some True)
       = ([ModelLoadStateDict True],
          ([(''field.weight'', 5), (''field.bias'', 2)], [(''datamanager.pose'', 0)]),
          Some RuntimeError)
   \<and> \<not> is_RuntimeError KeyError
   \<and> load_state_dict (\<lambda>strict sd m. (m, Some KeyError)) example_module_load
        (example_model, [(''datamanager.pose'', 0)]) example_state_dict None
       = ([ModelLoadStateDict True], (example_model, [(''datamanager.pose'', 0)]), Some KeyError)"
proof -
  have r: "is_RuntimeError RuntimeError" and k: "\<not> is_RuntimeError KeyError"
    by simp_all
  have retry: "example_model_load False (model_state_of example_state_dict)
      [(''field.weight'', 5), (''field.bias'', 2)]
      = ([(''field.weight'', 5), (''field.bias'', 2)], None)"
    by (simp add: example_model_state example_model_load_def Let_def)
  have own: "example_module_load (pipeline_state_of example_state_dict) [(''datamanager.pose'', 0)]
      = ([(''datamanager.pose'', 3)], None)"
    by (simp add: example_pipeline_state example_module_load_def example_model_load_def Let_def)
  from load_state_dict_strict_failure
      [where model_load = example_model_load and module_load = example_module_load
         and state_dict = example_state_dict and m = example_model
         and p = "[(''datamanager.pose'', 0)]" and strict = None,
       OF example_strict_load_fails] r retry own
  have relaxed: "load_state_dict example_model_load example_module_load
        (example_model, [(''datamanager.pose'', 0)]) example_state_dict None
       = ([ModelLoadStateDict True, ModelLoadStateDict False, ModuleLoadStateDict],
          ([(''field.weight'', 5), (''field.bias'', 2)], [(''datamanager.pose'', 3)]), None)"
    by simp
  from load_state_dict_strict_failure
      [where model_load = example_model_load and module_load = example_module_load
         and state_dict = example_state_dict and m = example_model
         and p = "[(''datamanager.pose'', 0)]" and strict = "Some True",
       OF example_strict_load_fails] r
  have strict: "load_state_dict example_model_load example_module_load
        (example_model, [(''datamanager.pose'', 0)]) example_state_dict (Some True)
       = ([ModelLoadStateDict True],
          ([(''field.weight'', 5), (''field.bias'', 2)], [(''datamanager.pose'', 0)]),
          Some RuntimeError)"
    by simp
  have other_fails: "(\<lambda>strict sd m. (m, Some KeyError)) True
      (model_state_of example_state_dict) example_model = (example_model, Some KeyError)"
    by simp
  from load_state_dict_strict_failure
      [where model_load = "\<lambda>strict sd m. (m, Some KeyError)"
         and module_load = example_module_load
         and state_dict = example_state_dict and m = example_model
         and p = "[(''datamanager.pose'', 0)]" and strict = None,
       OF other_fails] k
  have other: "load_state_dict (\<lambda>strict sd m. (m, Some KeyError)) example_module_load
        (example_model, [(''datamanager.pose'', 0)]) example_state_dict None
       = ([ModelLoadStateDict True], (example_model, [(''datamanager.pose'', 0)]), Some KeyError)"
    by simp
  from r relaxed strict k other show ?thesis by simp
qed

section \<open>Properties of the training loop\<close>

lemma rate_metric_steps_append:
  "rate_metric_steps (xs @ ys) = rate_metric_steps xs @ rate_metric_steps ys"
  by (induction xs rule: rate_metric_steps.induct) simp_all

lemma rate_metric_steps_pause:
  "rate_metric_steps (replicate n PauseSleep) = []"
  by (induction n) simp_all

lemma rate_metric_steps_viewer:
  "rate_metric_steps (map Viewer effects) = []"
  by (induction effects) simp_all

lemma loop_body_rate_metric:
  assumes "loop_body self env step = (evs, r)"
  shows "rate_metric_steps evs = [] \<or> (1 < step \<and> rate_metric_steps evs = [step])"
    and "r = None \<Longrightarrow> rate_metric_steps evs = (if 1 < step then [step] else [])"
proof -
  obtain calls res where ti: "train_iteration self (iter_env_at env step) step = (calls, res)"
    by (cases "train_iteration self (iter_env_at env step) step")
  obtain effects raised
    where uv: "update_viewer_state (loop_viewer_enabled env) (loop_has_viewer_state env)
                 (train_rays_per_batch env) (loop_update_scene env) step = (effects, raised)"
    by (cases "update_viewer_state (loop_viewer_enabled env) (loop_has_viewer_state env)
                 (train_rays_per_batch env) (loop_update_scene env) step")
  note simps = loop_body_def Let_def ti uv rate_metric_steps_append rate_metric_steps_pause
    rate_metric_steps_viewer
  show "rate_metric_steps evs = [] \<or> (1 < step \<and> rate_metric_steps evs = [step])"
  proof (cases "before_iteration env step")
    case (Some e)
    with assms show ?thesis by (auto simp: simps)
  next
    case None
    note before = this
    show ?thesis
    proof (cases res)
      case (Inl e)
      with assms before show ?thesis by (auto simp: simps)
    next
      case (Inr out)
      note ok = this
      show ?thesis
      proof (cases "after_iteration env step")
        case (Some e)
        with assms before ok show ?thesis by (auto simp: simps)
      next
        case None
        with assms before ok show ?thesis
          by (cases raised; cases "1 < step") (auto simp: simps)
      qed
    qed
  qed
  show "rate_metric_steps evs = (if 1 < step then [step] else [])" if "r = None"
  proof (cases "before_iteration env step")
    case (Some e)
    with assms that show ?thesis by (auto simp: simps)
  next
    case None
    note before = this
    show ?thesis
    proof (cases res)
      case (Inl e)
      with assms before that show ?thesis by (auto simp: simps)
    next
      case (Inr out)
      note ok = this
      show ?thesis
      proof (cases "after_iteration env step")
        case (Some e)
        with assms before ok that show ?thesis by (auto simp: simps)
      next
        case None
        with assms before ok that show ?thesis
          by (cases raised; cases "1 < step") (auto simp: simps)
      qed
    qed
  qed
qed

lemma train_loop_rate_metric:
  assumes "train_loop self env steps events = (evlog, r)"
  shows "(\<forall>s \<in> set (rate_metric_steps evlog). s \<in> set (rate_metric_steps events) \<or> 1 < s)
       \<and> (r = None \<longrightarrow>
            rate_metric_steps evlog = rate_metric_steps events @ filter (\<lambda>s. 1 < s) steps)"
  using assms
proof (induction steps arbitrary: events)
  case Nil
  then show ?case by simp
next
  case (Cons step steps)
  obtain evs r0 where body: "loop_body self env step = (evs, r0)"
    by (cases "loop_body self env step")
  have one: "rate_metric_steps evs = [] \<or> (1 < step \<and> rate_metric_steps evs = [step])"
    by (rule loop_body_rate_metric(1) [OF body])
  show ?case
  proof (cases r0)
    case None
    have two: "rate_metric_steps evs = (if 1 < step then [step] else [])"
      by (rule loop_body_rate_metric(2) [OF body None])
    from Cons.prems body None
    have run: "train_loop self env steps (events @ evs) = (evlog, r)"
      by simp
    have ih1: "\<forall>s \<in> set (rate_metric_steps evlog).
        s \<in> set (rate_metric_steps (events @ evs)) \<or> 1 < s"
      and ih2: "r = None \<longrightarrow>
        rate_metric_steps evlog = rate_metric_steps (events @ evs) @ filter (\<lambda>s. 1 < s) steps"
      using Cons.IH [OF run] by simp_all
    have part1: "\<forall>s \<in> set (rate_metric_steps evlog). s \<in> set (rate_metric_steps events) \<or> 1 < s"
    proof
      fix s
      assume "s \<in> set (rate_metric_steps evlog)"
      with ih1 have "s \<in> set (rate_metric_steps (events @ evs)) \<or> 1 < s" by blast
      then show "s \<in> set (rate_metric_steps events) \<or> 1 < s"
        using two by (cases "1 < step") (auto simp: rate_metric_steps_append)
    qed
    have part2: "r = None \<longrightarrow>
        rate_metric_steps evlog = rate_metric_steps events @ filter (\<lambda>s. 1 < s) (step # steps)"
      using ih2 two by (cases "1 < step") (simp_all add: rate_metric_steps_append)
    from part1 part2 show ?thesis by blast
  next
    case (Some e)
    with Cons.prems body have ev: "evlog = events @ evs" and r: "r = Some e"
      by simp_all
    have "\<forall>s \<in> set (rate_metric_steps evlog). s \<in> set (rate_metric_steps events) \<or> 1 < s"
    proof
      fix s
      assume "s \<in> set (rate_metric_steps evlog)"
      then have "s \<in> set (rate_metric_steps events) \<or> s \<in> set (rate_metric_steps evs)"
        by (simp add: ev rate_metric_steps_append)
      with one show "s \<in> set (rate_metric_steps events) \<or> 1 < s" by auto
    qed
    with r show ?thesis by simp
  qed
qed

text \<open>
  C6. In every run of the loop of \<open>Trainer.train\<close>, from whatever start step (also one
  resumed from a checkpoint) and whether it completes or is ended by an exception, the
  train-rays-per-second metric is never written for step 0 or step 1; and in a run that
  completes it is written once for every other step of the run, in order.
\<close>

theorem rate_metric_exclusion:
  "0 \<notin> set (rate_metric_steps (fst (train_iterations self env)))
   \<and> 1 \<notin> set (rate_metric_steps (fst (train_iterations self env)))
   \<and> (snd (train_iterations self env) = None \<longrightarrow>
        rate_metric_steps (fst (train_iterations self env))
          = filter (\<lambda>step. 1 < step) (train_steps self))"
proof -
  obtain evlog r where run: "train_loop self env (train_steps self) [] = (evlog, r)"
    by (cases "train_loop self env (train_steps self) []")
  have res: "train_iterations self env = (evlog, r)"
    by (simp only: train_iterations_def run)
  have a: "\<forall>s \<in> set (rate_metric_steps evlog). 1 < s"
    using train_loop_rate_metric [OF run, THEN conjunct1] by simp
  have b: "r = None \<longrightarrow> rate_metric_steps evlog = filter (\<lambda>s. 1 < s) (train_steps self)"
    using train_loop_rate_metric [OF run, THEN conjunct2] by simp
  have zero: "0 \<notin> set (rate_metric_steps evlog)"
  proof
    assume "0 \<in> set (rate_metric_steps evlog)"
    from bspec [OF a this] show False by simp
  qed
  have one: "1 \<notin> set (rate_metric_steps evlog)"
  proof
    assume "1 \<in> set (rate_metric_steps evlog)"
    from bspec [OF a this] show False by simp
  qed
  from zero one b show ?thesis
    by (simp only: res fst_conv snd_conv simp_thms)
qed

lemma example_train_iteration_any:
  "train_iteration (example_trainer\<lparr>start_step := s\<rparr>) (example_env 1 1) step =
     ([ZeroGradAll, GetTrainLossDict step, ScaleBackward 3, GetTrainLossDict step, ScaleBackward 4,
       OptimizerScalerStepAll, GetScale, ScalerUpdate, GetScale, SchedulerStepAll step],
      Inr (4, [(''rgb_loss'', 4)],
           [(''psnr'', 20), (''Gradients/field.weight'', 3), (''Gradients/Total'', 3)]))"
  by (simp add: train_iteration_def example_trainer_def trainer_init_def example_config_def Let_def
      example_env_def example_loss_dicts_def sub_step_def reduce_add_def log_gradients_all_def
      upt_rec)

lemma example_update_viewer_state:
  "snd (update_viewer_state True True 4096
          (\<lambda>step n. if step = 1 then Some RuntimeError else None) step) = None"
  by (simp add: update_viewer_state_def)

lemma example_loop_body_completes:
  "snd (loop_body (example_trainer\<lparr>start_step := s\<rparr>) example_loop_env step) = None"
proof -
  obtain effects raised
    where uv: "update_viewer_state True True 4096
        (\<lambda>step n. if step = 1 then Some RuntimeError else None) step = (effects, raised)"
    by (cases "update_viewer_state True True 4096
        (\<lambda>step n. if step = 1 then Some RuntimeError else None) step")
  with example_update_viewer_state [of step] have "raised = None" by simp
  with uv show ?thesis
    by (simp add: loop_body_def Let_def example_loop_env_def example_train_iteration_any)
qed

lemma example_train_loop_completes:
  "snd (train_loop (example_trainer\<lparr>start_step := s\<rparr>) example_loop_env steps events) = None"
proof (induction steps arbitrary: events)
  case Nil
  then show ?case by simp
next
  case (Cons step steps)
  obtain evs r
    where b: "loop_body (example_trainer\<lparr>start_step := s\<rparr>) example_loop_env step = (evs, r)"
    by (cases "loop_body (example_trainer\<lparr>start_step := s\<rparr>) example_loop_env step")
  with example_loop_body_completes [of s step] have "r = None" by simp
  with b Cons.IH show ?case by simp
qed

theorem rate_metric_exclusion_witness:
  "snd (train_iterations (example_trainer\<lparr>start_step := 0\<rparr>) example_loop_env) = None
   \<and> rate_metric_steps (fst (train_iterations (example_trainer\<lparr>start_step := 0\<rparr>) example_loop_env))
       = [2, 3]
   \<and> snd (train_iterations (example_trainer\<lparr>start_step := 1001\<rparr>) example_loop_env) = None
   \<and> rate_metric_steps (fst (train_iterations (example_trainer\<lparr>start_step := 1001\<rparr>) example_loop_env))
       = [1001, 1002, 1003, 1004]"
proof -
  have n: "cfg_max_num_iterations (config example_trainer) = 4"
    by (simp add: example_trainer_def trainer_init_def example_config_def Let_def)
  have s0: "train_steps (example_trainer\<lparr>start_step := 0\<rparr>) = [0, 1, 2, 3]"
    by (simp add: train_steps_def n upto_rec1)
  have s1: "train_steps (example_trainer\<lparr>start_step := 1001\<rparr>) = [1001, 1002, 1003, 1004]"
    by (simp add: train_steps_def n upto_rec1)
  have c0: "snd (train_iterations (example_trainer\<lparr>start_step := 0\<rparr>) example_loop_env) = None"
    and c1: "snd (train_iterations (example_trainer\<lparr>start_step := 1001\<rparr>) example_loop_env) = None"
    by (simp_all add: train_iterations_def example_train_loop_completes)
  from rate_metric_exclusion [of "example_trainer\<lparr>start_step := 0\<rparr>" example_loop_env] c0 s0
  have r0: "rate_metric_steps (fst (train_iterations (example_trainer\<lparr>start_step := 0\<rparr>) example_loop_env))
       = [2, 3]"
    by simp
  from rate_metric_exclusion [of "example_trainer\<lparr>start_step := 1001\<rparr>" example_loop_env] c1 s1
  have r1: "rate_metric_steps (fst (train_iterations (example_trainer\<lparr>start_step := 1001\<rparr>) example_loop_env))
       = [1001, 1002, 1003, 1004]"
    by simp
  from c0 r0 c1 r1 show ?thesis by simp
qed

section \<open>Checkpoint names and the steps read back from them\<close>

lemma digit_char_cases:
  assumes "d < 10"
  shows "d = 0 \<or> d = 1 \<or> d = 2 \<or> d = 3 \<or> d = 4 \<or> d = 5 \<or> d = 6 \<or> d = 7 \<or> d = 8
       \<or> d = (9::nat)"
  using assms by arith

lemma digit_val_digit_char: "d < 10 \<Longrightarrow> digit_val (digit_char d) = Some d"
  using digit_char_cases [of d] by (auto simp: digit_val_def digit_char_def)

lemma is_digit_zero: "is_digit (CHR ''0'')"
  by (simp add: is_digit_def)

lemma all_digits_simps:
  "all_digits []"
  "all_digits (c # s) = (is_digit c \<and> all_digits s)"
  "all_digits (s @ t) = (all_digits s \<and> all_digits t)"
  "all_digits (replicate k (CHR ''0''))"
  by (auto simp: all_digits_def is_digit_zero)

lemma digit_char_in: "d < 10 \<Longrightarrow> is_digit (digit_char d)"
  using digit_char_cases [of d] by (auto simp: digit_char_def is_digit_def)

lemma digits_charset: "all_digits (digits n)"
proof (induction n rule: digits.induct)
  case (1 n)
  show ?case
  proof (cases "n < 10")
    case True
    then show ?thesis
      using digit_char_in [of n] by (subst digits.simps) (simp add: all_digits_simps)
  next
    case False
    with "1" have "all_digits (digits (n div 10))" by simp
    moreover have "is_digit (digit_char (n mod 10))"
      by (rule digit_char_in) simp
    ultimately show ?thesis
      using False by (subst digits.simps) (simp add: all_digits_simps)
  qed
qed

lemma digits_not_empty: "digits n \<noteq> []"
  by (subst digits.simps) simp

lemma zfill_charset: "all_digits s \<Longrightarrow> all_digits (zfill w s)"
  by (simp add: zfill_def all_digits_simps)

lemma zfill_not_empty: "s \<noteq> [] \<Longrightarrow> zfill w s \<noteq> []"
  by (simp add: zfill_def)

lemma is_digit_facts:
  assumes "is_digit c"
  shows "c \<noteq> CHR ''_''" and "c \<noteq> CHR ''-''" and "c \<noteq> CHR ''+''" and "c \<noteq> CHR ''.''"
    and "\<not> is_space c" and "\<exists>d. digit_val c = Some d"
  using assms by (auto simp: is_digit_def is_space_def digit_val_def)

lemma digits_value_decimal:
  assumes "all_digits ds" and "ds \<noteq> [] \<or> after_digit"
  shows "digits_value after_digit ds acc = Some (decimal acc ds)"
  using assms
proof (induction ds arbitrary: after_digit acc)
  case Nil
  then show ?case by simp
next
  case (Cons c ds)
  from Cons.prems have c: "is_digit c" and ds: "all_digits ds"
    by (simp_all add: all_digits_simps)
  from is_digit_facts(6) [OF c] obtain d where "digit_val c = Some d" ..
  with is_digit_facts(1) [OF c] Cons.IH [OF ds, of True] show ?case by simp
qed

lemma decimal_zeros: "decimal 0 (replicate k (CHR ''0'')) = 0"
  by (induction k) (simp_all add: digit_val_def)

lemma decimal_digits: "decimal 0 (digits n) = n"
proof (induction n rule: digits.induct)
  case (1 n)
  show ?case
  proof (cases "n < 10")
    case True
    then show ?thesis
      by (subst digits.simps) (simp add: digit_val_digit_char)
  next
    case False
    with "1" have "decimal 0 (digits (n div 10)) = n div 10" by simp
    moreover have "digit_val (digit_char (n mod 10)) = Some (n mod 10)"
      by (rule digit_val_digit_char) simp
    ultimately show ?thesis
      using False by (subst digits.simps) simp
  qed
qed

lemma digits_value_zfill: "digits_value False (zfill w (digits n)) 0 = Some n"
proof -
  have "digits_value False (zfill w (digits n)) 0 = Some (decimal 0 (zfill w (digits n)))"
    by (rule digits_value_decimal)
       (simp_all add: zfill_charset digits_charset zfill_not_empty digits_not_empty)
  also have "decimal 0 (zfill w (digits n)) = n"
    by (simp add: zfill_def decimal_zeros decimal_digits)
  finally show ?thesis .
qed

lemma strip_unchanged:
  assumes "s \<noteq> []" and "\<not> is_space (hd s)" and "\<not> is_space (last s)"
  shows "strip s = s"
proof -
  from assms have "dropWhile is_space s = s"
    by (cases s) simp_all
  moreover from assms have "dropWhile is_space (rev s) = rev s"
    by (cases "rev s") (simp_all add: hd_rev)
  ultimately show ?thesis by (simp add: strip_def)
qed

lemma all_digits_last: "all_digits s \<Longrightarrow> s \<noteq> [] \<Longrightarrow> is_digit (last s)"
  by (simp add: all_digits_def)

lemma py_int_format_09d: "py_int (format_09d n) = Some n"
proof (cases "n < 0")
  case True
  let ?ds = "zfill 8 (digits (nat (- n)))"
  have cs: "all_digits ?ds" and ne: "?ds \<noteq> []"
    by (simp_all add: zfill_charset digits_charset zfill_not_empty digits_not_empty)
  have "\<not> is_space (last (CHR ''-'' # ?ds))"
    using ne is_digit_facts(5) [OF all_digits_last [OF cs ne]] by simp
  then have "strip (CHR ''-'' # ?ds) = CHR ''-'' # ?ds"
    by (intro strip_unchanged) (simp_all add: is_space_def)
  with True show ?thesis
    by (simp add: py_int_def format_09d_def digits_value_zfill)
next
  case False
  let ?ds = "zfill 9 (digits (nat n))"
  have cs: "all_digits ?ds" and ne: "?ds \<noteq> []"
    by (simp_all add: zfill_charset digits_charset zfill_not_empty digits_not_empty)
  from ne obtain c rest where ds: "?ds = c # rest" by (cases ?ds) auto
  with cs have c: "is_digit c" by (simp add: all_digits_simps)
  have "\<not> is_space (hd ?ds)"
    using is_digit_facts(5) [OF c] ds by simp
  moreover have "\<not> is_space (last ?ds)"
    by (rule is_digit_facts(5) [OF all_digits_last [OF cs ne]])
  ultimately have "strip ?ds = ?ds"
    using ne by (intro strip_unchanged)
  moreover note is_digit_facts(2,3) [OF c]
  moreover have "digits_value False ?ds 0 = Some (nat n)"
    by (rule digits_value_zfill)
  ultimately have "py_int ?ds = Some (int (nat n))"
    unfolding py_int_def using ds by simp
  with False show ?thesis
    by (simp add: format_09d_def)
qed

lemma format_09d_no_dot: "CHR ''.'' \<notin> set (format_09d n)"
proof -
  have "CHR ''.'' \<notin> set (zfill w (digits k))" for w k
    using zfill_charset [OF digits_charset, of w k] is_digit_facts(4)
    by (auto simp: all_digits_def)
  then show ?thesis by (simp add: format_09d_def)
qed

lemma py_slice_middle:
  "py_slice (xs @ ys @ zs) (int (length xs)) (int (length xs) + int (length ys)) = ys"
proof -
  have lo: "slice_index (length (xs @ ys @ zs)) (int (length xs)) = length xs"
    by (simp add: slice_index_def)
  have "slice_index (length (xs @ ys @ zs)) (int (length xs) + int (length ys))
      = min (nat (int (length xs) + int (length ys))) (length (xs @ ys @ zs))"
    by (simp only: slice_index_def) simp
  also have "nat (int (length xs) + int (length ys)) = length xs + length ys"
    by (simp add: nat_add_distrib)
  finally have hi: "slice_index (length (xs @ ys @ zs)) (int (length xs) + int (length ys))
      = length xs + length ys"
    by simp
  show ?thesis
    unfolding py_slice_def Let_def lo hi by simp
qed

lemma step_of_ckpt_name: "step_of_name (ckpt_name n) = Some n"
proof -
  let ?f = "format_09d n"
  have dash: "py_find (ckpt_name n) (CHR ''-'') + 1 = int (length ''step-'')"
    by (simp add: py_find_def ckpt_name_def)
  have "takeWhile (\<lambda>x. x \<noteq> CHR ''.'') (?f @ ''.ckpt'') = ?f"
    using format_09d_no_dot [of n] by (simp add: takeWhile_append)
  then have dot: "py_find (ckpt_name n) (CHR ''.'') = int (length ''step-'') + int (length ?f)"
    by (simp add: py_find_def ckpt_name_def)
  have "py_slice (''step-'' @ ?f @ ''.ckpt'') (int (length ''step-''))
          (int (length ''step-'') + int (length ?f)) = ?f"
    by (rule py_slice_middle)
  then have "py_slice (ckpt_name n) (py_find (ckpt_name n) (CHR ''-'') + 1)
          (py_find (ckpt_name n) (CHR ''.'')) = ?f"
    unfolding dash dot by (simp only: ckpt_name_def)
  then show ?thesis
    by (simp only: step_of_name_def py_int_format_09d)
qed

lemma ckpt_name_inject:
  assumes "ckpt_name m = ckpt_name n"
  shows "m = n"
proof -
  have "Some m = step_of_name (ckpt_name m)"
    by (simp only: step_of_ckpt_name)
  also have "\<dots> = step_of_name (ckpt_name n)"
    by (simp only: assms)
  also have "\<dots> = Some n"
    by (simp only: step_of_ckpt_name)
  finally show ?thesis by simp
qed

section \<open>Properties of saving checkpoints\<close>

lemma unlink_others_regular:
  assumes "list_all (\<lambda>(name, e). e \<noteq> Subdirectory) listed"
  shows "unlink_others keep listed dir
         = (filter (\<lambda>(name, e). name = keep \<or> name \<notin> fst ` set listed) dir, None)"
  using assms
proof (induction listed arbitrary: dir)
  case Nil
  then show ?case by simp
next
  case (Cons entry listed)
  obtain name e where entry: "entry = (name, e)" by (cases entry)
  from Cons.prems entry have e: "e \<noteq> Subdirectory"
    and rest: "list_all (\<lambda>(name, e). e \<noteq> Subdirectory) listed"
    by simp_all
  show ?case
  proof (cases "name = keep")
    case True
    have "filter (\<lambda>(n, e). n = keep \<or> n \<notin> fst ` set listed) dir
        = filter (\<lambda>(n, e). n = keep \<or> n \<notin> fst ` set (entry # listed)) dir"
      by (rule filter_cong) (auto simp: entry True)
    with True entry Cons.IH [OF rest, of dir] show ?thesis by simp
  next
    case False
    have "filter (\<lambda>(n, e). n = keep \<or> n \<notin> fst ` set listed) (AList.delete name dir)
        = filter (\<lambda>(n, e). n = keep \<or> n \<notin> fst ` set (entry # listed)) dir"
      unfolding AList.delete_eq filter_filter
      by (rule filter_cong) (auto simp: entry False)
    with False entry e Cons.IH [OF rest, of "AList.delete name dir"] show ?thesis
      by (cases e) simp_all
  qed
qed

lemma filter_single_key:
  assumes "distinct (map fst dir)" and "map_of dir keep = Some v"
  shows "filter (\<lambda>(name, e). name = keep) dir = [(keep, v)]"
  using assms
proof (induction dir)
  case Nil
  then show ?case by simp
next
  case (Cons entry dir)
  obtain name e where entry: "entry = (name, e)" by (cases entry)
  show ?case
  proof (cases "name = keep")
    case True
    with Cons.prems entry have "keep \<notin> fst ` set dir" and "e = v" by auto
    then have "filter (\<lambda>(name, e). name = keep) dir = []"
      by (force simp: filter_empty_conv)
    with True entry \<open>e = v\<close> show ?thesis by simp
  next
    case False
    with Cons entry show ?thesis by simp
  qed
qed

lemma unlink_others_all:
  assumes "regular_files dir" and "map_of dir keep = Some v"
  shows "unlink_others keep dir dir = ([(keep, v)], None)"
proof -
  from assms(1) have d: "distinct (map fst dir)"
    and r: "list_all (\<lambda>(name, e). e \<noteq> Subdirectory) dir"
    by (simp_all add: regular_files_def)
  have "filter (\<lambda>(name, e). name = keep \<or> name \<notin> fst ` set dir) dir
      = filter (\<lambda>(name, e). name = keep) dir"
    by (rule filter_cong) force+
  with unlink_others_regular [OF r, of keep dir] filter_single_key [OF d assms(2)]
  show ?thesis by simp
qed

lemma list_all_update:
  "list_all P dir \<Longrightarrow> P (k, v) \<Longrightarrow> list_all P (AList.update k v dir)"
  by (induction dir) auto

lemma regular_files_update:
  "regular_files dir \<Longrightarrow> e \<noteq> Subdirectory \<Longrightarrow> regular_files (AList.update name e dir)"
  by (simp add: regular_files_def distinct_update list_all_update)

lemma save_checkpoint_ok:
  assumes "cfg_save_only_latest_checkpoint (config self)"
      and "case dir_opt of None \<Rightarrow> True | Some dir \<Rightarrow> regular_files dir"
  shows "save_checkpoint self True state_dict comps WriteOk dir_opt step
         = (Some [(ckpt_name step, Written (checkpoint_state state_dict comps step))], None)"
proof -
  let ?dir = "case dir_opt of None \<Rightarrow> [] | Some d \<Rightarrow> d"
  let ?st = "checkpoint_state state_dict comps step"
  let ?dir1 = "AList.update (ckpt_name step) (Written ?st) ?dir"
  from assms(2) have "regular_files ?dir"
    by (cases dir_opt) (simp_all add: regular_files_def)
  then have "regular_files ?dir1"
    by (rule regular_files_update) simp
  moreover have "map_of ?dir1 (ckpt_name step) = Some (Written ?st)"
    by (simp add: update_conv')
  ultimately have "unlink_others (ckpt_name step) ?dir1 ?dir1
      = ([(ckpt_name step, Written ?st)], None)"
    by (rule unlink_others_all)
  with assms(1) show ?thesis
    by (simp add: save_checkpoint_def torch_save_def Let_def)
qed

lemma save_checkpoint_failed:
  assumes "outcome \<noteq> WriteOk"
  shows "\<exists>dir' e. save_checkpoint self True state_dict comps outcome dir_opt step = (Some dir', Some e)
           \<and> (\<forall>name. name \<noteq> ckpt_name step \<longrightarrow>
                 map_of dir' name = map_of (case dir_opt of None \<Rightarrow> [] | Some d \<Rightarrow> d) name)"
  using assms
  by (cases outcome) (simp_all add: save_checkpoint_def torch_save_def Let_def update_conv')

lemma save_checkpoints_latest:
  assumes "cfg_save_only_latest_checkpoint (config self)"
      and "case dir_opt of None \<Rightarrow> True | Some dir \<Rightarrow> regular_files dir"
      and "saves \<noteq> []"
  shows "save_checkpoints self True state_dict saves dir_opt
         = (Some [(ckpt_name (fst (last saves)),
                   Written (checkpoint_state state_dict (snd (last saves)) (fst (last saves))))],
            None)"
  using assms(2,3)
proof (induction saves arbitrary: dir_opt)
  case Nil
  then show ?case by simp
next
  case (Cons save saves)
  obtain step comps where save: "save = (step, comps)" by (cases save)
  let ?one = "[(ckpt_name step, Written (checkpoint_state state_dict comps step))]"
  have first: "save_checkpoint self True state_dict comps WriteOk dir_opt step = (Some ?one, None)"
    by (rule save_checkpoint_ok [OF assms(1) Cons.prems(1)])
  show ?case
  proof (cases "saves = []")
    case True
    with first save show ?thesis by simp
  next
    case False
    have "case Some ?one of None \<Rightarrow> True | Some dir \<Rightarrow> regular_files dir"
      by (simp add: regular_files_def)
    from Cons.IH [OF this False] first save False show ?thesis by simp
  qed
qed

lemma length_digits_bound: "0 < k \<Longrightarrow> n < 10 ^ k \<Longrightarrow> length (digits n) \<le> k"
proof (induction n arbitrary: k rule: digits.induct)
  case (1 n)
  show ?case
  proof (cases "n < 10")
    case True
    with "1.prems" show ?thesis by (subst digits.simps) simp
  next
    case False
    with "1.prems" have "1 < k"
      by (cases "k = 1") auto
    then obtain j where k: "k = Suc j" and j: "0 < j" by (cases k) auto
    from "1.prems" k have "n div 10 < 10 ^ j"
      by (simp add: less_mult_imp_div_less)
    from "1.IH" [OF False j this] k False show ?thesis
      by (subst digits.simps) simp
  qed
qed

lemma length_format_09d:
  assumes "0 \<le> step" and "step < 10 ^ 9"
  shows "length (format_09d step) = 9"
proof -
  from assms have "nat step < 10 ^ 9"
    by (simp add: nat_less_iff)
  then have "length (digits (nat step)) \<le> 9"
    by (intro length_digits_bound) simp_all
  with assms show ?thesis
    by (simp add: format_09d_def zfill_def)
qed
text \<open>
  C3. On the main process, with \<open>save_only_latest_checkpoint\<close> enabled and a checkpoint
  directory that is absent or holds only files: for every step, \<open>save_checkpoint\<close> whose write succeeds
  leaves exactly one file in the directory, the checkpoint of that step, under the name
  \<open>step-\<close>, the step padded with zeros (nine digits for a step from 0 up to 999999999),
  \<open>.ckpt\<close>, a name from which the step is read back; when the write fails, the call
  raises and every file of another name is still there, so nothing is deleted before the
  new file is written; and after any non-empty sequence of saves whose writes succeed the
  directory holds exactly one file, the checkpoint of the last step saved.
\<close>

theorem save_checkpoint_latest_only:
  assumes "cfg_save_only_latest_checkpoint (config self)"
      and "case dir_opt of None \<Rightarrow> True | Some dir \<Rightarrow> regular_files dir"
  shows "save_checkpoint self True state_dict comps WriteOk dir_opt step
           = (Some [(ckpt_name step, Written (checkpoint_state state_dict comps step))], None)
       \<and> step_of_name (ckpt_name step) = Some step
       \<and> (0 \<le> step \<and> step < 10 ^ 9 \<longrightarrow> length (format_09d step) = 9)
       \<and> (outcome \<noteq> WriteOk \<longrightarrow>
            (\<exists>dir' e. save_checkpoint self True state_dict comps outcome dir_opt step
                        = (Some dir', Some e)
               \<and> (\<forall>name. name \<noteq> ckpt_name step \<longrightarrow>
                     map_of dir' name
                       = map_of (case dir_opt of None \<Rightarrow> [] | Some d \<Rightarrow> d) name)))
       \<and> (saves \<noteq> [] \<longrightarrow>
            save_checkpoints self True state_dict saves dir_opt
              = (Some [(ckpt_name (fst (last saves)),
                        Written (checkpoint_state state_dict (snd (last saves))
                                   (fst (last saves))))],
                 None))"
proof (intro conjI impI)
  show "save_checkpoint self True state_dict comps WriteOk dir_opt step
           = (Some [(ckpt_name step, Written (checkpoint_state state_dict comps step))], None)"
    by (rule save_checkpoint_ok [OF assms])
  show "step_of_name (ckpt_name step) = Some step"
    by (rule step_of_ckpt_name)
  show "length (format_09d step) = 9" if "0 \<le> step \<and> step < 10 ^ 9"
    using that by (intro length_format_09d) simp_all
  show "\<exists>dir' e. save_checkpoint self True state_dict comps outcome dir_opt step = (Some dir', Some e)
           \<and> (\<forall>name. name \<noteq> ckpt_name step \<longrightarrow>
                 map_of dir' name = map_of (case dir_opt of None \<Rightarrow> [] | Some d \<Rightarrow> d) name)"
    if "outcome \<noteq> WriteOk"
    by (rule save_checkpoint_failed [OF that])
  show "save_checkpoints self True state_dict saves dir_opt
         = (Some [(ckpt_name (fst (last saves)),
                   Written (checkpoint_state state_dict (snd (last saves)) (fst (last saves))))],
            None)" if "saves \<noteq> []"
    by (rule save_checkpoints_latest [OF assms that])
qed

theorem save_checkpoint_latest_only_witness:
  "cfg_save_only_latest_checkpoint (config example_trainer)
   \<and> regular_files example_directory
   \<and> save_checkpoint example_trainer True (\<lambda>pl. pl) example_components WriteOk
        (Some example_directory) 2000
       = (Some [(ckpt_name 2000,
                 Written (checkpoint_state (\<lambda>pl. pl) example_components 2000))], None)
   \<and> step_of_name (ckpt_name 2000) = Some 2000
   \<and> length (format_09d 2000) = 9
   \<and> (\<exists>dir' e. save_checkpoint example_trainer True (\<lambda>pl. pl) example_components
                   (WriteFailedPartial OSError) (Some example_directory) 2000
                 = (Some dir', Some e)
          \<and> map_of dir' ''old.ckpt'' = Some Truncated
          \<and> map_of dir' ''notes.txt'' = Some Truncated)
   \<and> save_checkpoints example_trainer True (\<lambda>pl. pl)
        [(1000, example_components), (2000, example_components)] None
       = (Some [(ckpt_name 2000,
                 Written (checkpoint_state (\<lambda>pl. pl) example_components 2000))], None)"
proof -
  have latest: "cfg_save_only_latest_checkpoint (config example_trainer)"
    by (simp add: example_trainer_def trainer_init_def example_config_def Let_def)
  have reg: "regular_files example_directory"
    by (simp add: regular_files_def example_directory_def)
  then have reg': "case Some example_directory of None \<Rightarrow> True | Some dir \<Rightarrow> regular_files dir"
    by simp
  have none': "case (None :: directory option) of None \<Rightarrow> True | Some dir \<Rightarrow> regular_files dir"
    by simp
  have other: "''old.ckpt'' \<noteq> ckpt_name 2000" "''notes.txt'' \<noteq> ckpt_name 2000"
    by (simp_all add: ckpt_name_def)
  note inst = save_checkpoint_latest_only
    [where self = example_trainer and state_dict = "\<lambda>pl. pl" and comps = example_components
       and step = 2000 and outcome = "WriteFailedPartial OSError"
       and saves = "[(1000, example_components), (2000, example_components)]"]
  note some = inst [OF latest reg']
  have ok: "save_checkpoint example_trainer True (\<lambda>pl. pl) example_components WriteOk
        (Some example_directory) 2000
       = (Some [(ckpt_name 2000,
                 Written (checkpoint_state (\<lambda>pl. pl) example_components 2000))], None)"
    by (rule some [THEN conjunct1])
  have readback: "step_of_name (ckpt_name 2000) = Some 2000"
    by (rule some [THEN conjunct2, THEN conjunct1])
  have len: "length (format_09d 2000) = 9"
    using some [THEN conjunct2, THEN conjunct2, THEN conjunct1] by simp
  have "\<exists>dir' e. save_checkpoint example_trainer True (\<lambda>pl. pl) example_components
                   (WriteFailedPartial OSError) (Some example_directory) 2000
                 = (Some dir', Some e)
          \<and> (\<forall>name. name \<noteq> ckpt_name 2000 \<longrightarrow>
                map_of dir' name = map_of (case Some example_directory of
                                             None \<Rightarrow> [] | Some d \<Rightarrow> d) name)"
    using some [THEN conjunct2, THEN conjunct2, THEN conjunct2, THEN conjunct1] by simp
  then obtain dir' e
    where f1: "save_checkpoint example_trainer True (\<lambda>pl. pl) example_components
                   (WriteFailedPartial OSError) (Some example_directory) 2000
                 = (Some dir', Some e)"
      and f2: "\<forall>name. name \<noteq> ckpt_name 2000 \<longrightarrow>
                 map_of dir' name = map_of example_directory name"
    by auto
  from f2 other have "map_of dir' ''old.ckpt'' = map_of example_directory ''old.ckpt''"
    and "map_of dir' ''notes.txt'' = map_of example_directory ''notes.txt''"
    by blast+
  then have "map_of dir' ''old.ckpt'' = Some Truncated"
    and "map_of dir' ''notes.txt'' = Some Truncated"
    by (simp_all add: example_directory_def)
  with f1 have failed: "\<exists>dir' e. save_checkpoint example_trainer True (\<lambda>pl. pl) example_components
                   (WriteFailedPartial OSError) (Some example_directory) 2000
                 = (Some dir', Some e)
          \<and> map_of dir' ''old.ckpt'' = Some Truncated
          \<and> map_of dir' ''notes.txt'' = Some Truncated"
    by blast
  have seq: "save_checkpoints example_trainer True (\<lambda>pl. pl)
        [(1000, example_components), (2000, example_components)] None
       = (Some [(ckpt_name 2000,
                 Written (checkpoint_state (\<lambda>pl. pl) example_components 2000))], None)"
    using inst [OF latest none', THEN conjunct2, THEN conjunct2, THEN conjunct2, THEN conjunct2]
    by simp
  from latest reg ok readback len failed seq show ?thesis by blast
qed

section \<open>Properties of loading a checkpoint\<close>

lemma those_step_of_ckpt_names: "those (map step_of_name (map ckpt_name steps)) = Some steps"
  by (induction steps) (simp_all add: step_of_ckpt_name)

lemma sorted_le_last:
  fixes xs :: "int list"
  shows "sorted xs \<Longrightarrow> y \<in> set xs \<Longrightarrow> y \<le> last xs"
  by (induction xs) auto

lemma last_sort_Max:
  fixes steps :: "int list"
  assumes "steps \<noteq> []"
  shows "last (sort steps) = Max (set steps)"
proof -
  from assms have ne: "sort steps \<noteq> []"
    by (metis length_0_conv length_sort)
  have "Max (set (sort steps)) = last (sort steps)"
  proof (rule Max_eqI)
    show "finite (set (sort steps))" by simp
    show "y \<le> last (sort steps)" if "y \<in> set (sort steps)" for y
      using that by (intro sorted_le_last) simp_all
    show "last (sort steps) \<in> set (sort steps)"
      using ne by (rule last_in_set)
  qed
  then show ?thesis by simp
qed

lemma latest_step_of_ckpt_names:
  assumes "steps \<noteq> []"
  shows "latest_step (map ckpt_name steps) = Inr (Max (set steps))"
proof -
  from assms have "sort steps \<noteq> []"
    by (metis length_0_conv length_sort)
  with assms show ?thesis
    unfolding latest_step_def those_step_of_ckpt_names
    by (simp add: last_sort_Max)
qed
lemma restore_state_success:
  assumes "restore_state model_load module_load update_to_step self comps loaded
           = ((self', comps'), None)"
  shows "start_step self' = ck_step loaded + 1
       \<and> (\<exists>calls. load_pipeline model_load module_load update_to_step (comp_pipeline comps)
                     (ck_pipeline loaded) (ck_step loaded)
                   = (calls, comp_pipeline comps', None))
       \<and> comp_optimizers comps' = ck_optimizers loaded
       \<and> comp_schedulers comps'
           = (case ck_schedulers loaded of
                Some scheds \<Rightarrow> if cfg_load_scheduler (config self) then scheds
                                else comp_schedulers comps
              | None \<Rightarrow> comp_schedulers comps)
       \<and> comp_scalers comps' = ck_scalers loaded"
proof -
  obtain calls pl r
    where lp: "load_pipeline model_load module_load update_to_step (comp_pipeline comps)
                 (ck_pipeline loaded) (ck_step loaded) = (calls, pl, r)"
    by (cases "load_pipeline model_load module_load update_to_step (comp_pipeline comps)
                 (ck_pipeline loaded) (ck_step loaded)")
  show ?thesis
  proof (cases r)
    case (Some e)
    with assms lp show ?thesis by (simp add: restore_state_def Let_def)
  next
    case None
    with assms lp show ?thesis
      by (cases "ck_schedulers loaded"; cases "cfg_load_scheduler (config self)")
         (auto simp: restore_state_def Let_def)
  qed
qed

text \<open>
  C4. \<open>Trainer._load_checkpoint\<close>: with a load directory and no load step, where the
  directory lists checkpoint files named from their steps, the path resolved is that of
  the numerically largest step, and the state of that file is the one restored; if the
  resolved path (in the directory, or the explicit file) does not exist the call raises
  the \<open>AssertionError\<close> of the existence check and changes nothing; a restore that
  succeeds sets the step to resume at to the loaded step plus one and restores the
  pipeline through \<open>load_pipeline\<close>, the optimizer states, the scheduler states exactly
  when the loaded state has them and \<open>load_scheduler\<close> is configured, and the scaler
  state; with neither a load directory nor a load checkpoint the call raises nothing and
  changes nothing, so a trainer just constructed still starts at step 0.
\<close>

theorem load_checkpoint_behaviour:
  "(cfg_load_dir (config self) = Some load_dir \<and> cfg_load_step (config self) = None
      \<and> fs load_dir = Some d \<and> map fst d = map ckpt_name steps \<and> steps \<noteq> []
      \<and> map_of d (ckpt_name (Max (set steps))) = Some (Written loaded)
    \<longrightarrow> resolve_load_step fs (config self) load_dir = Inr (Max (set steps))
      \<and> load_checkpoint model_load module_load update_to_step load_error fs self comps
          = restore_state model_load module_load update_to_step self comps loaded)
   \<and> (cfg_load_dir (config self) = Some load_dir
      \<and> resolve_load_step fs (config self) load_dir = Inr load_step
      \<and> lookup_path fs load_dir (ckpt_name load_step) = None
    \<longrightarrow> load_checkpoint model_load module_load update_to_step load_error fs self comps
          = ((self, comps), Some AssertionError))
   \<and> (cfg_load_dir (config self) = None \<and> cfg_load_checkpoint (config self) = Some (dir, name)
      \<and> lookup_path fs dir name = None
    \<longrightarrow> load_checkpoint model_load module_load update_to_step load_error fs self comps
          = ((self, comps), Some AssertionError))
   \<and> (cfg_load_dir (config self) = None \<and> cfg_load_checkpoint (config self) = Some (dir, name)
      \<and> lookup_path fs dir name = Some (Written loaded)
    \<longrightarrow> load_checkpoint model_load module_load update_to_step load_error fs self comps
          = restore_state model_load module_load update_to_step self comps loaded)
   \<and> (restore_state model_load module_load update_to_step self comps loaded
        = ((self', comps'), None)
    \<longrightarrow> start_step self' = ck_step loaded + 1
      \<and> (\<exists>calls. load_pipeline model_load module_load update_to_step (comp_pipeline comps)
                    (ck_pipeline loaded) (ck_step loaded)
                  = (calls, comp_pipeline comps', None))
      \<and> comp_optimizers comps' = ck_optimizers loaded
      \<and> comp_schedulers comps'
          = (case ck_schedulers loaded of
               Some scheds \<Rightarrow> if cfg_load_scheduler (config self) then scheds
                               else comp_schedulers comps
             | None \<Rightarrow> comp_schedulers comps)
      \<and> comp_scalers comps' = ck_scalers loaded)
   \<and> (cfg_load_dir cfg = None \<and> cfg_load_checkpoint cfg = None
    \<longrightarrow> load_checkpoint model_load module_load update_to_step load_error fs
            (trainer_init cfg rank wsize) comps
          = ((trainer_init cfg rank wsize, comps), None)
      \<and> start_step (trainer_init cfg rank wsize) = 0)"
proof (intro conjI impI)
  assume h: "cfg_load_dir (config self) = Some load_dir \<and> cfg_load_step (config self) = None
      \<and> fs load_dir = Some d \<and> map fst d = map ckpt_name steps \<and> steps \<noteq> []
      \<and> map_of d (ckpt_name (Max (set steps))) = Some (Written loaded)"
  then have "latest_step (map fst d) = Inr (Max (set steps))"
    by (simp add: latest_step_of_ckpt_names)
  with h show r: "resolve_load_step fs (config self) load_dir = Inr (Max (set steps))"
    by (simp add: resolve_load_step_def)
  from h r show "load_checkpoint model_load module_load update_to_step load_error fs self comps
          = restore_state model_load module_load update_to_step self comps loaded"
    by (simp add: load_checkpoint_def lookup_path_def torch_load_def)
next
  assume "cfg_load_dir (config self) = Some load_dir
      \<and> resolve_load_step fs (config self) load_dir = Inr load_step
      \<and> lookup_path fs load_dir (ckpt_name load_step) = None"
  then show "load_checkpoint model_load module_load update_to_step load_error fs self comps
          = ((self, comps), Some AssertionError)"
    by (simp add: load_checkpoint_def)
next
  assume "cfg_load_dir (config self) = None \<and> cfg_load_checkpoint (config self) = Some (dir, name)
      \<and> lookup_path fs dir name = None"
  then show "load_checkpoint model_load module_load update_to_step load_error fs self comps
          = ((self, comps), Some AssertionError)"
    by (simp add: load_checkpoint_def)
next
  assume "cfg_load_dir (config self) = None \<and> cfg_load_checkpoint (config self) = Some (dir, name)
      \<and> lookup_path fs dir name = Some (Written loaded)"
  then show "load_checkpoint model_load module_load update_to_step load_error fs self comps
          = restore_state model_load module_load update_to_step self comps loaded"
    by (simp add: load_checkpoint_def torch_load_def)
next
  assume r: "restore_state model_load module_load update_to_step self comps loaded
        = ((self', comps'), None)"
  note s = restore_state_success [OF r]
  show "start_step self' = ck_step loaded + 1"
    by (rule s [THEN conjunct1])
  show "\<exists>calls. load_pipeline model_load module_load update_to_step (comp_pipeline comps)
                    (ck_pipeline loaded) (ck_step loaded)
                  = (calls, comp_pipeline comps', None)"
    by (rule s [THEN conjunct2, THEN conjunct1])
  show "comp_optimizers comps' = ck_optimizers loaded"
    by (rule s [THEN conjunct2, THEN conjunct2, THEN conjunct1])
  show "comp_schedulers comps'
          = (case ck_schedulers loaded of
               Some scheds \<Rightarrow> if cfg_load_scheduler (config self) then scheds
                               else comp_schedulers comps
             | None \<Rightarrow> comp_schedulers comps)"
    by (rule s [THEN conjunct2, THEN conjunct2, THEN conjunct2, THEN conjunct1])
  show "comp_scalers comps' = ck_scalers loaded"
    by (rule s [THEN conjunct2, THEN conjunct2, THEN conjunct2, THEN conjunct2])
next
  assume h: "cfg_load_dir cfg = None \<and> cfg_load_checkpoint cfg = None"
  have c: "config (trainer_init cfg rank wsize) = cfg"
    by (simp add: trainer_init_def Let_def)
  from h show "load_checkpoint model_load module_load update_to_step load_error fs
            (trainer_init cfg rank wsize) comps
          = ((trainer_init cfg rank wsize, comps), None)"
    by (simp add: load_checkpoint_def c)
  show "start_step (trainer_init cfg rank wsize) = 0"
    by (simp add: trainer_init_def Let_def)
qed
lemma example_ckpt_names_differ:
  "ckpt_name 2000 \<noteq> ckpt_name 1000" "ckpt_name 2000 \<noteq> ckpt_name 500"
  "ckpt_name 1000 \<noteq> ckpt_name 500"
  using ckpt_name_inject [of 2000 1000] ckpt_name_inject [of 2000 500]
    ckpt_name_inject [of 1000 500]
  by auto

lemma example_lookup:
  "lookup_path example_file_system ''outputs/ckpts'' (ckpt_name 2000)
     = Some (Written (example_checkpoint 2000))"
  "lookup_path example_file_system ''outputs/ckpts'' (ckpt_name 1000)
     = Some (Written (example_checkpoint 1000))"
  "lookup_path example_file_system ''outputs/ckpts'' (ckpt_name 500) = None"
  "lookup_path example_file_system ''outputs/ckpts'' ''missing.ckpt'' = None"
  using example_ckpt_names_differ
  by (auto simp: lookup_path_def example_file_system_def ckpt_name_def)

lemma example_restore:
  "restore_state (\<lambda>strict sd m. (sd, None)) (\<lambda>sd p. (sd, None)) (\<lambda>step m. m)
       (example_resume_trainer dir step file) example_fresh_components (example_checkpoint n)
     = (((example_resume_trainer dir step file)\<lparr>start_step := n + 1\<rparr>,
         example_restored_components n), None)"
  by (simp add: restore_state_def load_pipeline_def load_state_dict_def model_state_of_def
      pipeline_state_of_def dict_of_def startswith_def example_checkpoint_def
      example_fresh_components_def example_restored_components_def Let_def
      example_resume_trainer_def example_trainer_def trainer_init_def example_config_def)
theorem load_checkpoint_behaviour_witness:
  "load_checkpoint (\<lambda>strict sd m. (sd, None)) (\<lambda>sd p. (sd, None)) (\<lambda>step m. m) RuntimeError
       example_file_system (example_resume_trainer (Some ''outputs/ckpts'') None None)
       example_fresh_components
     = (((example_resume_trainer (Some ''outputs/ckpts'') None None)\<lparr>start_step := 2001\<rparr>,
         example_restored_components 2000), None)
   \<and> load_checkpoint (\<lambda>strict sd m. (sd, None)) (\<lambda>sd p. (sd, None)) (\<lambda>step m. m) RuntimeError
       example_file_system (example_resume_trainer (Some ''outputs/ckpts'') (Some 500) None)
       example_fresh_components
     = ((example_resume_trainer (Some ''outputs/ckpts'') (Some 500) None,
         example_fresh_components), Some AssertionError)
   \<and> load_checkpoint (\<lambda>strict sd m. (sd, None)) (\<lambda>sd p. (sd, None)) (\<lambda>step m. m) RuntimeError
       example_file_system
       (example_resume_trainer None None (Some (''outputs/ckpts'', ''missing.ckpt'')))
       example_fresh_components
     = ((example_resume_trainer None None (Some (''outputs/ckpts'', ''missing.ckpt'')),
         example_fresh_components), Some AssertionError)
   \<and> load_checkpoint (\<lambda>strict sd m. (sd, None)) (\<lambda>sd p. (sd, None)) (\<lambda>step m. m) RuntimeError
       example_file_system
       (example_resume_trainer None None (Some (''outputs/ckpts'', ckpt_name 1000)))
       example_fresh_components
     = (((example_resume_trainer None None (Some (''outputs/ckpts'', ckpt_name 1000)))
           \<lparr>start_step := 1001\<rparr>,
         example_restored_components 1000), None)
   \<and> start_step ((example_resume_trainer (Some ''outputs/ckpts'') None None)\<lparr>start_step := 2001\<rparr>)
       = ck_step (example_checkpoint 2000) + 1
   \<and> comp_schedulers (example_restored_components 2000)
       = [(''fields'', [(''last_epoch'', 2000)])]
   \<and> load_checkpoint (\<lambda>strict sd m. (sd, None)) (\<lambda>sd p. (sd, None)) (\<lambda>step m. m) RuntimeError
       example_file_system (trainer_init example_config 0 1) example_fresh_components
     = ((trainer_init example_config 0 1, example_fresh_components), None)
   \<and> start_step (trainer_init example_config 0 1) = 0"
proof -
  let ?ml = "\<lambda>(strict::bool) (sd::tensor_dict) (m::tensor_dict). (sd, None :: exn option)"
  let ?pl = "\<lambda>(sd::tensor_dict) (p::tensor_dict). (sd, None :: exn option)"
  let ?up = "\<lambda>(step::int) (m::tensor_dict). m"
  let ?d = "[(ckpt_name 2000, Written (example_checkpoint 2000)),
             (ckpt_name 1000, Written (example_checkpoint 1000))]"
  note cfg = example_resume_trainer_def example_trainer_def trainer_init_def example_config_def
    Let_def
  have max: "Max (set [2000, 1000 :: int]) = 2000" by simp
  have in_dir: "map_of ?d (ckpt_name (Max (set [2000, 1000]))) = Some (Written (example_checkpoint 2000))"
    by (simp add: max)
  have first: "load_checkpoint ?ml ?pl ?up RuntimeError example_file_system
       (example_resume_trainer (Some ''outputs/ckpts'') None None) example_fresh_components
     = restore_state ?ml ?pl ?up (example_resume_trainer (Some ''outputs/ckpts'') None None)
         example_fresh_components (example_checkpoint 2000)"
    using load_checkpoint_behaviour
      [where self = "example_resume_trainer (Some ''outputs/ckpts'') None None"
         and load_dir = "''outputs/ckpts''" and fs = example_file_system and d = ?d
         and steps = "[2000, 1000]" and loaded = "example_checkpoint 2000"
         and model_load = ?ml and module_load = ?pl and update_to_step = ?up
         and load_error = RuntimeError and comps = example_fresh_components,
       THEN conjunct1] in_dir
    by (simp add: cfg example_file_system_def)
  have resolved: "resolve_load_step example_file_system
       (config (example_resume_trainer (Some ''outputs/ckpts'') (Some 500) None))
       ''outputs/ckpts'' = Inr 500"
    by (simp add: resolve_load_step_def cfg)
  have second: "load_checkpoint ?ml ?pl ?up RuntimeError example_file_system
       (example_resume_trainer (Some ''outputs/ckpts'') (Some 500) None) example_fresh_components
     = ((example_resume_trainer (Some ''outputs/ckpts'') (Some 500) None,
         example_fresh_components), Some AssertionError)"
    using load_checkpoint_behaviour
      [where self = "example_resume_trainer (Some ''outputs/ckpts'') (Some 500) None"
         and load_dir = "''outputs/ckpts''" and fs = example_file_system and load_step = 500
         and model_load = ?ml and module_load = ?pl and update_to_step = ?up
         and load_error = RuntimeError and comps = example_fresh_components,
       THEN conjunct2, THEN conjunct1] resolved example_lookup(3)
    by (simp add: cfg)
  have third: "load_checkpoint ?ml ?pl ?up RuntimeError example_file_system
       (example_resume_trainer None None (Some (''outputs/ckpts'', ''missing.ckpt'')))
       example_fresh_components
     = ((example_resume_trainer None None (Some (''outputs/ckpts'', ''missing.ckpt'')),
         example_fresh_components), Some AssertionError)"
    using load_checkpoint_behaviour
      [where self = "example_resume_trainer None None (Some (''outputs/ckpts'', ''missing.ckpt''))"
         and dir = "''outputs/ckpts''" and name = "''missing.ckpt''" and fs = example_file_system
         and model_load = ?ml and module_load = ?pl and update_to_step = ?up
         and load_error = RuntimeError and comps = example_fresh_components,
       THEN conjunct2, THEN conjunct2, THEN conjunct1] example_lookup(4)
    by (simp add: cfg)
  have fourth: "load_checkpoint ?ml ?pl ?up RuntimeError example_file_system
       (example_resume_trainer None None (Some (''outputs/ckpts'', ckpt_name 1000)))
       example_fresh_components
     = restore_state ?ml ?pl ?up
         (example_resume_trainer None None (Some (''outputs/ckpts'', ckpt_name 1000)))
         example_fresh_components (example_checkpoint 1000)"
    using load_checkpoint_behaviour
      [where self = "example_resume_trainer None None (Some (''outputs/ckpts'', ckpt_name 1000))"
         and dir = "''outputs/ckpts''" and name = "ckpt_name 1000" and fs = example_file_system
         and loaded = "example_checkpoint 1000"
         and model_load = ?ml and module_load = ?pl and update_to_step = ?up
         and load_error = RuntimeError and comps = example_fresh_components,
       THEN conjunct2, THEN conjunct2, THEN conjunct2, THEN conjunct1] example_lookup(2)
    by (simp add: cfg)
  have fifth: "start_step ((example_resume_trainer (Some ''outputs/ckpts'') None None)
                 \<lparr>start_step := 2001\<rparr>) = ck_step (example_checkpoint 2000) + 1
     \<and> comp_schedulers (example_restored_components 2000)
         = [(''fields'', [(''last_epoch'', 2000)])]"
    using load_checkpoint_behaviour
      [where self = "example_resume_trainer (Some ''outputs/ckpts'') None None"
         and self' = "(example_resume_trainer (Some ''outputs/ckpts'') None None)
                        \<lparr>start_step := 2001\<rparr>"
         and comps = example_fresh_components and comps' = "example_restored_components 2000"
         and loaded = "example_checkpoint 2000"
         and model_load = ?ml and module_load = ?pl and update_to_step = ?up,
       THEN conjunct2, THEN conjunct2, THEN conjunct2, THEN conjunct2, THEN conjunct1]
      example_restore [of "Some ''outputs/ckpts''" None None 2000]
    by (simp add: example_checkpoint_def cfg)
  have sixth: "load_checkpoint ?ml ?pl ?up RuntimeError example_file_system
         (trainer_init example_config 0 1) example_fresh_components
       = ((trainer_init example_config 0 1, example_fresh_components), None)
     \<and> start_step (trainer_init example_config 0 1) = 0"
    using load_checkpoint_behaviour
      [where cfg = example_config and rank = 0 and wsize = 1 and fs = example_file_system
         and model_load = ?ml and module_load = ?pl and update_to_step = ?up
         and load_error = RuntimeError and comps = example_fresh_components,
       THEN conjunct2, THEN conjunct2, THEN conjunct2, THEN conjunct2, THEN conjunct2]
    by (simp add: example_config_def)
  from first second third fourth fifth sixth
    example_restore [of "Some ''outputs/ckpts''" None None 2000]
    example_restore [of None None "Some (''outputs/ckpts'', ckpt_name 1000)" 1000]
  show ?thesis by simp
qed

end
